theory Spec2Isabelle
  imports Main "HOL-Library.Word"
begin

section \<open>Go strings\<close>

text \<open>
  Go strings are byte sequences; they are modelled as \<open>string\<close> (a list of \<open>char\<close>).
  The functions of package \<open>strings\<close> and \<open>fmt\<close> that the sources call are written out.
\<close>

text \<open>\<open>strings.HasPrefix(s, prefix)\<close>.\<close>

fun HasPrefix :: "string \<Rightarrow> string \<Rightarrow> bool" where
  "HasPrefix s [] = True"
| "HasPrefix [] (p # ps) = False"
| "HasPrefix (c # cs) (p # ps) = (c = p \<and> HasPrefix cs ps)"

text \<open>\<open>strings.Contains(s, substr)\<close>: \<open>substr\<close> occurs in \<open>s\<close> as a contiguous run.\<close>

fun Contains :: "string \<Rightarrow> string \<Rightarrow> bool" where
  "Contains [] sub = (sub = [])"
| "Contains (c # cs) sub = (HasPrefix (c # cs) sub \<or> Contains cs sub)"

text \<open>
  \<open>strings.Split(s, sep)\<close> for a separator of one byte (the sources only split at
  \<open>"."\<close>): \<open>n\<close> separators give \<open>n + 1\<close> pieces, and the empty string gives one
  empty piece.
\<close>

fun Split :: "string \<Rightarrow> char \<Rightarrow> string list" where
  "Split [] sep = [[]]"
| "Split (c # cs) sep =
     (if c = sep then [] # Split cs sep
      else (case Split cs sep of [] \<Rightarrow> [[c]] | p # ps \<Rightarrow> (c # p) # ps))"

text \<open>\<open>strings.Join(elems, sep)\<close>.\<close>

fun Join :: "string list \<Rightarrow> string \<Rightarrow> string" where
  "Join [] sep = []"
| "Join [x] sep = x"
| "Join (x # y # ys) sep = x @ sep @ Join (y # ys) sep"

text \<open>The decimal digits of a natural number, and \<open>%d\<close> of \<open>fmt.Sprintf\<close>.\<close>

definition digit :: "nat \<Rightarrow> char" where
  "digit n = char_of (48 + n)"

fun dec :: "nat \<Rightarrow> string" where
  "dec n = (if n < 10 then [digit n] else dec (n div 10) @ [digit (n mod 10)])"

definition Sprintf_d :: "int \<Rightarrow> string" where
  "Sprintf_d i = (if i < 0 then CHR ''-'' # dec (nat (- i)) else dec (nat i))"

section \<open>Kubernetes objects read by the operator\<close>

text \<open>
  A \<open>corev1.Secret\<close>: its UID and ResourceVersion (ObjectMeta) and its data. A
  \<open>SecretReference\<close> and the \<open>CloudflareTunnel\<close> are declared outside the files at
  hand; the records have the fields the sources read, a nested field \<open>a.b.c\<close> of the
  tunnel under the name \<open>tun_a_b_c\<close>.
\<close>

record Secret =
  UID :: string
  ResourceVersion :: string
  Data :: "string \<rightharpoonup> string"

record SecretReference =
  ref_Name :: string
  ref_Namespace :: string

record CloudflareTunnel =
  tun_Name :: string
  tun_Namespace :: string
  tun_Spec_Cloudflare_SecretRef :: SecretReference
  tun_Spec_Cloudflare_SecretKeys_APIToken :: string
  tun_Spec_Cloudflared_Protocol :: string
  tun_Spec_Cloudflared_Metrics_Port :: "32 word"
  tun_Spec_OriginDefaults_ConnectTimeout :: string
  tun_Spec_OriginDefaults_NoTLSVerify :: bool
  tun_Spec_OriginDefaults_HTTP2Origin :: bool
  tun_Spec_FallbackTarget :: string
  tun_Status_TunnelID :: string
  tun_Status_TunnelDomain :: string

section \<open>The credential cache (cache.go)\<close>

text \<open>
  A \<open>Client\<close> held by the cache is an interface value and may be \<open>nil\<close>: it is a
  \<open>'c option\<close>, \<open>None\<close> for \<open>nil\<close>. Instants and durations are integers
  (nanoseconds); \<open>time.Now()\<close> is a parameter of each function that reads the clock.
  The read-write lock is not modelled: one call runs at a time.
\<close>

record 'c cacheEntry =
  client :: "'c option"
  expiresAt :: int

record 'c CredentialCache =
  entries :: "string \<rightharpoonup> 'c cacheEntry"
  ttl :: int

definition DefaultCacheTTL :: int where
  "DefaultCacheTTL = 30 * 1000000000"

definition NewCredentialCache :: "int \<Rightarrow> 'c CredentialCache" where
  "NewCredentialCache t = \<lparr>entries = Map.empty, ttl = (if t \<le> 0 then DefaultCacheTTL else t)\<rparr>"

definition cacheKey :: "Secret \<Rightarrow> string" where
  "cacheKey secret = UID secret @ '':'' @ ResourceVersion secret"

text \<open>\<open>Get\<close> returns the client and the cache, from which an expired entry is removed.\<close>

definition Get :: "'c CredentialCache \<Rightarrow> Secret \<Rightarrow> int \<Rightarrow> 'c option \<times> 'c CredentialCache" where
  "Get c secret now =
     (let key = cacheKey secret
      in case entries c key of
           None \<Rightarrow> (None, c)
         | Some entry \<Rightarrow>
             if now > expiresAt entry
             then (None, c\<lparr>entries := (entries c)(key := None)\<rparr>)
             else (client entry, c))"

definition Set :: "'c CredentialCache \<Rightarrow> Secret \<Rightarrow> 'c option \<Rightarrow> int \<Rightarrow> 'c CredentialCache" where
  "Set c secret cl now =
     c\<lparr>entries := (entries c)(cacheKey secret \<mapsto> \<lparr>client = cl, expiresAt = now + ttl c\<rparr>)\<rparr>"

text \<open>
  \<open>GetOrCreate\<close>. The function \<open>createFn\<close> acts on a state \<open>'b\<close> of its own and returns
  the pair \<open>(Client, error)\<close>; \<open>tGet\<close> and \<open>tSet\<close> are the clock readings of \<open>Get\<close> and
  \<open>Set\<close>. The result is the returned pair, the cache and the state of \<open>createFn\<close>.
\<close>

definition GetOrCreate ::
  "'c CredentialCache \<Rightarrow> Secret \<Rightarrow> ('b \<Rightarrow> ('c option \<times> string option) \<times> 'b) \<Rightarrow> int \<Rightarrow> int \<Rightarrow> 'b
     \<Rightarrow> ('c option \<times> string option) \<times> 'c CredentialCache \<times> 'b" where
  "GetOrCreate c secret createFn tGet tSet b =
     (case Get c secret tGet of
        (Some cl, c1) \<Rightarrow> ((Some cl, None), c1, b)
      | (None, c1) \<Rightarrow>
          (case createFn b of
             ((cl, Some err), b1) \<Rightarrow> ((None, Some err), c1, b1)
           | ((cl, None), b1) \<Rightarrow> ((cl, None), Set c1 secret cl tSet, b1)))"

text \<open>
  The cache answers from an entry: one exists under the key of the secret, it has not
  expired at the instant \<open>now\<close>, and the client it holds is not \<open>nil\<close>.
\<close>

definition cacheHit :: "'c CredentialCache \<Rightarrow> Secret \<Rightarrow> int \<Rightarrow> bool" where
  "cacheHit c secret now =
     (case entries c (cacheKey secret) of
        None \<Rightarrow> False
      | Some entry \<Rightarrow> \<not> now > expiresAt entry \<and> client entry \<noteq> None)"

text \<open>Every entry of the cache holds a client.\<close>

definition holdsClients :: "'c CredentialCache \<Rightarrow> bool" where
  "holdsClients c = (\<forall>k e. entries c k = Some e \<longrightarrow> client e \<noteq> None)"

definition Invalidate :: "'c CredentialCache \<Rightarrow> Secret \<Rightarrow> 'c CredentialCache" where
  "Invalidate c secret = c\<lparr>entries := (entries c)(cacheKey secret := None)\<rparr>"

definition Clear :: "'c CredentialCache \<Rightarrow> 'c CredentialCache" where
  "Clear c = c\<lparr>entries := Map.empty\<rparr>"

definition Cleanup :: "'c CredentialCache \<Rightarrow> int \<Rightarrow> 'c CredentialCache" where
  "Cleanup c now =
     c\<lparr>entries := (\<lambda>key. case entries c key of
                        None \<Rightarrow> None
                      | Some entry \<Rightarrow> if now > expiresAt entry then None else Some entry)\<rparr>"

section \<open>Package cloudflare: DNS records\<close>

text \<open>
  \<open>DNSRecord\<close> is declared outside the files at hand; the record below has the fields
  that \<open>dns.go\<close> reads and writes, under their Go names.
\<close>

record DNSRecord =
  ID :: string
  Type :: string
  Name :: string
  Content :: string
  TTL :: int
  Proxied :: bool
  Comment :: string

text \<open>\<open>ExtractZoneFromHostname\<close> (dns.go): the last two dot-separated parts.\<close>

definition ExtractZoneFromHostname :: "string \<Rightarrow> string" where
  "ExtractZoneFromHostname hostname =
     (let parts = Split hostname (CHR ''.'')
      in if length parts < 2 then hostname
         else Join (drop (length parts - 2) parts) ''.'')"

text \<open>
  The comment-based ownership check of dns.go. The sentinel is the literal
  \<open>managed by cfgate\<close>; the parameter \<open>ownershipPrefix\<close> is not read by the source.
\<close>

definition IsOwnedByCfgate :: "DNSRecord \<Rightarrow> string \<Rightarrow> string \<Rightarrow> bool" where
  "IsOwnedByCfgate record ownershipPrefix tunnelName =
     (if Contains (Comment record) ''managed by cfgate''
      then (if tunnelName = [] then True
            else Contains (Comment record) (''tunnel='' @ tunnelName))
      else False)"

definition recordsMatch :: "DNSRecord \<Rightarrow> DNSRecord \<Rightarrow> bool" where
  "recordsMatch a b =
     (Content a = Content b \<and> Proxied a = Proxied b \<and> TTL a = TTL b \<and> Comment a = Comment b)"

definition BuildCNAMERecord :: "string \<Rightarrow> string \<Rightarrow> bool \<Rightarrow> string \<Rightarrow> DNSRecord" where
  "BuildCNAMERecord hostname tunnelDomain proxied comment =
     \<lparr>ID = [], Type = ''CNAME'', Name = hostname, Content = tunnelDomain, TTL = 1,
      Proxied = proxied, Comment = comment\<rparr>"

definition BuildOwnershipTXTRecord :: "string \<Rightarrow> string \<Rightarrow> string \<Rightarrow> DNSRecord" where
  "BuildOwnershipTXTRecord hostname tunnelName prefix =
     \<lparr>ID = [], Type = ''TXT'', Name = prefix @ ''.'' @ hostname,
      Content = ''managed by cfgate, tunnel='' @ tunnelName, TTL = 1,
      Proxied = False, Comment = ''cfgate ownership record''\<rparr>"

subsection \<open>The Cloudflare API client\<close>

text \<open>
  The interface \<open>Client\<close> is declared outside the files at hand, so a client is a
  parameter: a record of its five methods, each a function of the state \<open>'w\<close> of the
  external provider that returns its result and the next state. An \<open>error\<close> is its
  message; a method that returns \<open>(value, error)\<close> returns one of the two.
\<close>

record Zone =
  zone_ID :: string
  zone_Name :: string

record 'w Client =
  ListDNSRecords :: "string \<Rightarrow> 'w \<Rightarrow> (string + DNSRecord list) \<times> 'w"
  CreateDNSRecord :: "string \<Rightarrow> DNSRecord \<Rightarrow> 'w \<Rightarrow> (string + DNSRecord) \<times> 'w"
  UpdateDNSRecord :: "string \<Rightarrow> string \<Rightarrow> DNSRecord \<Rightarrow> 'w \<Rightarrow> (string + DNSRecord) \<times> 'w"
  DeleteDNSRecord :: "string \<Rightarrow> string \<Rightarrow> 'w \<Rightarrow> string option \<times> 'w"
  GetZoneByName :: "string \<Rightarrow> 'w \<Rightarrow> (string + Zone option) \<times> 'w"

text \<open>
  Every call that reaches the provider is appended to a log, a listing together with
  its response, so that what a reconciliation did to the provider can be read off.
\<close>

datatype call =
    ListCall string "string + DNSRecord list"
  | CreateCall string DNSRecord
  | UpdateCall string string DNSRecord
  | DeleteCall string string
  | GetZoneCall string

text \<open>
  The state threaded through the operator: the state of the provider, the log of calls,
  and the credential cache of the reconciler (\<open>None\<close> when the pointer is \<open>nil\<close>).
\<close>

record 'w state =
  world :: 'w
  calls :: "call list"
  cache :: "'w Client CredentialCache option"

definition callList :: "'w Client \<Rightarrow> string \<Rightarrow> 'w state \<Rightarrow> (string + DNSRecord list) \<times> 'w state" where
  "callList c zoneID s =
     (case ListDNSRecords c zoneID (world s) of
        (res, w) \<Rightarrow> (res, s\<lparr>world := w, calls := calls s @ [ListCall zoneID res]\<rparr>))"

definition callCreate :: "'w Client \<Rightarrow> string \<Rightarrow> DNSRecord \<Rightarrow> 'w state \<Rightarrow> (string + DNSRecord) \<times> 'w state" where
  "callCreate c zoneID record s =
     (case CreateDNSRecord c zoneID record (world s) of
        (res, w) \<Rightarrow> (res, s\<lparr>world := w, calls := calls s @ [CreateCall zoneID record]\<rparr>))"

definition callUpdate :: "'w Client \<Rightarrow> string \<Rightarrow> string \<Rightarrow> DNSRecord \<Rightarrow> 'w state \<Rightarrow> (string + DNSRecord) \<times> 'w state" where
  "callUpdate c zoneID recordID record s =
     (case UpdateDNSRecord c zoneID recordID record (world s) of
        (res, w) \<Rightarrow> (res, s\<lparr>world := w, calls := calls s @ [UpdateCall zoneID recordID record]\<rparr>))"

definition callDelete :: "'w Client \<Rightarrow> string \<Rightarrow> string \<Rightarrow> 'w state \<Rightarrow> string option \<times> 'w state" where
  "callDelete c zoneID recordID s =
     (case DeleteDNSRecord c zoneID recordID (world s) of
        (res, w) \<Rightarrow> (res, s\<lparr>world := w, calls := calls s @ [DeleteCall zoneID recordID]\<rparr>))"

definition callGetZone :: "'w Client \<Rightarrow> string \<Rightarrow> 'w state \<Rightarrow> (string + Zone option) \<times> 'w state" where
  "callGetZone c zoneName s =
     (case GetZoneByName c zoneName (world s) of
        (res, w) \<Rightarrow> (res, s\<lparr>world := w, calls := calls s @ [GetZoneCall zoneName]\<rparr>))"

subsection \<open>DNSService (dns.go)\<close>

definition FindRecordByName ::
  "'w Client \<Rightarrow> string \<Rightarrow> string \<Rightarrow> string \<Rightarrow> 'w state \<Rightarrow> (string + DNSRecord option) \<times> 'w state" where
  "FindRecordByName c zoneID name recordType s =
     (case callList c zoneID s of
        (Inl err, s1) \<Rightarrow> (Inl (''failed to list DNS records: '' @ err), s1)
      | (Inr records, s1) \<Rightarrow>
          (Inr (find (\<lambda>record. Name record = name \<and> Type record = recordType) records), s1))"

text \<open>\<open>SyncRecord\<close> returns the record and whether it was modified, or an error.\<close>

definition SyncRecord ::
  "'w Client \<Rightarrow> string \<Rightarrow> DNSRecord \<Rightarrow> 'w state \<Rightarrow> (string + DNSRecord \<times> bool) \<times> 'w state" where
  "SyncRecord c zoneID desired s =
     (case FindRecordByName c zoneID (Name desired) (Type desired) s of
        (Inl err, s1) \<Rightarrow> (Inl (''failed to find existing record: '' @ err), s1)
      | (Inr None, s1) \<Rightarrow>
          (case callCreate c zoneID desired s1 of
             (Inl err, s2) \<Rightarrow> (Inl (''failed to create DNS record: '' @ err), s2)
           | (Inr record, s2) \<Rightarrow> (Inr (record, True), s2))
      | (Inr (Some existing), s1) \<Rightarrow>
          if \<not> IsOwnedByCfgate existing [] [] then (Inr (existing, False), s1)
          else if recordsMatch existing desired then (Inr (existing, False), s1)
          else (case callUpdate c zoneID (ID existing) desired s1 of
                  (Inl err, s2) \<Rightarrow> (Inl (''failed to update DNS record: '' @ err), s2)
                | (Inr record, s2) \<Rightarrow> (Inr (record, True), s2)))"

definition DeleteRecord :: "'w Client \<Rightarrow> string \<Rightarrow> string \<Rightarrow> 'w state \<Rightarrow> string option \<times> 'w state" where
  "DeleteRecord c zoneID recordID s = callDelete c zoneID recordID s"

definition ListManagedRecords ::
  "'w Client \<Rightarrow> string \<Rightarrow> string \<Rightarrow> 'w state \<Rightarrow> (string + DNSRecord list) \<times> 'w state" where
  "ListManagedRecords c zoneID ownershipPrefix s =
     (case callList c zoneID s of
        (Inl err, s1) \<Rightarrow> (Inl (''failed to list DNS records: '' @ err), s1)
      | (Inr records, s1) \<Rightarrow>
          (Inr (filter (\<lambda>record.
                  Contains (Comment record) ''managed by cfgate''
                  \<or> (Type record = ''TXT'' \<and> HasPrefix (Name record) (ownershipPrefix @ ''.'')))
                records), s1))"

definition CreateOwnershipRecord ::
  "'w Client \<Rightarrow> string \<Rightarrow> string \<Rightarrow> string \<Rightarrow> string \<Rightarrow> 'w state \<Rightarrow> string option \<times> 'w state" where
  "CreateOwnershipRecord c zoneID hostname tunnelName prefix s =
     (let record = BuildOwnershipTXTRecord hostname tunnelName prefix
      in case FindRecordByName c zoneID (Name record) (Type record) s of
           (Inl err, s1) \<Rightarrow> (Some (''failed to check existing ownership record: '' @ err), s1)
         | (Inr (Some existing), s1) \<Rightarrow>
             if Content existing = Content record \<and> Comment existing = Comment record
             then (None, s1)
             else (case callUpdate c zoneID (ID existing) record s1 of
                     (Inl err, s2) \<Rightarrow> (Some (''failed to update ownership record: '' @ err), s2)
                   | (Inr _, s2) \<Rightarrow> (None, s2))
         | (Inr None, s1) \<Rightarrow>
             (case callCreate c zoneID record s1 of
                (Inl err, s2) \<Rightarrow> (Some (''failed to create ownership record: '' @ err), s2)
              | (Inr _, s2) \<Rightarrow> (None, s2)))"

definition DeleteOwnershipRecord ::
  "'w Client \<Rightarrow> string \<Rightarrow> string \<Rightarrow> string \<Rightarrow> 'w state \<Rightarrow> string option \<times> 'w state" where
  "DeleteOwnershipRecord c zoneID hostname prefix s =
     (let txtName = prefix @ ''.'' @ hostname
      in case FindRecordByName c zoneID txtName ''TXT'' s of
           (Inl err, s1) \<Rightarrow> (Some (''failed to find ownership record: '' @ err), s1)
         | (Inr None, s1) \<Rightarrow> (None, s1)
         | (Inr (Some record), s1) \<Rightarrow> DeleteRecord c zoneID (ID record) s1)"

definition ResolveZone :: "'w Client \<Rightarrow> string \<Rightarrow> 'w state \<Rightarrow> (string + Zone option) \<times> 'w state" where
  "ResolveZone c zoneName s = callGetZone c zoneName s"

section \<open>The tunnel agent configuration (configmap.go)\<close>

record OriginRequestConfig =
  ConnectTimeout :: string
  TLSTimeout :: string
  TCPKeepAlive :: string
  NoHappyEyeballs :: bool
  KeepAliveConnections :: int
  KeepAliveTimeout :: string
  HTTPHostHeader :: string
  OriginServerName :: string
  CAPool :: string
  NoTLSVerify :: bool
  DisableChunkedEncoding :: bool
  BastionMode :: bool
  ProxyAddress :: string
  ProxyPort :: int
  ProxyType :: string
  HTTP2Origin :: bool

record WarpRoutingConfig =
  warp_Enabled :: bool

record IngressRule =
  Hostname :: string
  Path :: string
  Service :: string
  OriginRequest :: "OriginRequestConfig option"

record TunnelConfig =
  TunnelID :: string
  CredentialsFile :: string
  Ingress :: "IngressRule list"
  cfg_OriginRequest :: "OriginRequestConfig option"
  WarpRouting :: "WarpRoutingConfig option"
  Protocol :: string
  LogLevel :: string
  NoAutoUpdate :: bool
  Metrics :: string

definition DefaultMetricsPort :: "32 word" where
  "DefaultMetricsPort = 2000"

text \<open>\<open>getMetricsPort\<close> (deployment.go); the port is an \<open>int32\<close>, compared as signed.\<close>

definition getMetricsPort :: "CloudflareTunnel \<Rightarrow> 32 word" where
  "getMetricsPort tunnel =
     (if 0 < sint (tun_Spec_Cloudflared_Metrics_Port tunnel)
      then tun_Spec_Cloudflared_Metrics_Port tunnel else DefaultMetricsPort)"

definition NewTunnelConfig :: "CloudflareTunnel \<Rightarrow> string \<Rightarrow> TunnelConfig" where
  "NewTunnelConfig tunnel tunnelID =
     (let config = \<lparr>TunnelID = tunnelID, CredentialsFile = [], Ingress = [],
                     cfg_OriginRequest = None, WarpRouting = None, Protocol = [], LogLevel = [],
                     NoAutoUpdate = True,
                     Metrics = ''0.0.0.0:'' @ Sprintf_d (sint (getMetricsPort tunnel))\<rparr>;
          config = (if tun_Spec_Cloudflared_Protocol tunnel \<noteq> []
                       \<and> tun_Spec_Cloudflared_Protocol tunnel \<noteq> ''auto''
                    then config\<lparr>Protocol := tun_Spec_Cloudflared_Protocol tunnel\<rparr> else config);
          config = (if tun_Spec_OriginDefaults_ConnectTimeout tunnel \<noteq> []
                       \<or> tun_Spec_OriginDefaults_NoTLSVerify tunnel
                       \<or> tun_Spec_OriginDefaults_HTTP2Origin tunnel
                    then config\<lparr>cfg_OriginRequest := Some
                      \<lparr>ConnectTimeout = tun_Spec_OriginDefaults_ConnectTimeout tunnel,
                       TLSTimeout = [], TCPKeepAlive = [], NoHappyEyeballs = False,
                       KeepAliveConnections = 0, KeepAliveTimeout = [], HTTPHostHeader = [],
                       OriginServerName = [], CAPool = [],
                       NoTLSVerify = tun_Spec_OriginDefaults_NoTLSVerify tunnel,
                       DisableChunkedEncoding = False, BastionMode = False, ProxyAddress = [],
                       ProxyPort = 0, ProxyType = [],
                       HTTP2Origin = tun_Spec_OriginDefaults_HTTP2Origin tunnel\<rparr>\<rparr>
                    else config);
          fallback = (if tun_Spec_FallbackTarget tunnel = [] then ''http_status:404''
                      else tun_Spec_FallbackTarget tunnel)
      in config\<lparr>Ingress := Ingress config @
           [\<lparr>Hostname = [], Path = [], Service = fallback, OriginRequest = None\<rparr>]\<rparr>)"

definition AddRule :: "TunnelConfig \<Rightarrow> IngressRule \<Rightarrow> TunnelConfig" where
  "AddRule c rule =
     (if length (Ingress c) = 0 then c\<lparr>Ingress := Ingress c @ [rule]\<rparr>
      else let lastIdx = length (Ingress c) - 1;
               catchAll = Ingress c ! lastIdx
           in if Hostname catchAll = [] \<and> Path catchAll = []
              then c\<lparr>Ingress := take lastIdx (Ingress c) @ [rule, catchAll]\<rparr>
              else c\<lparr>Ingress := Ingress c @ [rule]\<rparr>)"

definition SetCatchAll :: "TunnelConfig \<Rightarrow> string \<Rightarrow> TunnelConfig" where
  "SetCatchAll c service =
     (let c1 = (if length (Ingress c) > 0
                then let lastIdx = length (Ingress c) - 1;
                         lastRule = Ingress c ! lastIdx
                     in if Hostname lastRule = [] \<and> Path lastRule = []
                        then c\<lparr>Ingress := take lastIdx (Ingress c)\<rparr> else c
                else c)
      in c1\<lparr>Ingress := Ingress c1 @
           [\<lparr>Hostname = [], Path = [], Service = service, OriginRequest = None\<rparr>]\<rparr>)"

text \<open>The loop of \<open>Validate\<close> over the rules, from index \<open>i\<close>: the first rule without a service.\<close>

fun validateRules :: "nat \<Rightarrow> IngressRule list \<Rightarrow> string option" where
  "validateRules i [] = None"
| "validateRules i (rule # rules) =
     (if Service rule = [] then Some (''ingress rule '' @ dec i @ '': service is required'')
      else validateRules (Suc i) rules)"

text \<open>\<open>Validate\<close> returns the error, \<open>None\<close> for \<open>nil\<close>.\<close>

definition Validate :: "TunnelConfig \<Rightarrow> string option" where
  "Validate c =
     (if TunnelID c = [] then Some ''tunnel ID is required''
      else if length (Ingress c) = 0 then Some ''at least one ingress rule is required''
      else let lastRule = Ingress c ! (length (Ingress c) - 1)
           in if Hostname lastRule \<noteq> [] \<or> Path lastRule \<noteq> []
              then Some ''last ingress rule must be a catch-all (no hostname or path)''
              else validateRules 0 (Ingress c))"

text \<open>A call of one of the two methods that change the rules, and a run of such calls.\<close>

datatype ingress_call = CallAddRule IngressRule | CallSetCatchAll string

fun applyCall :: "TunnelConfig \<Rightarrow> ingress_call \<Rightarrow> TunnelConfig" where
  "applyCall c (CallAddRule rule) = AddRule c rule"
| "applyCall c (CallSetCatchAll service) = SetCatchAll c service"

definition lastIsCatchAll :: "TunnelConfig \<Rightarrow> bool" where
  "lastIsCatchAll c =
     (Ingress c \<noteq> [] \<and> Hostname (last (Ingress c)) = [] \<and> Path (last (Ingress c)) = [])"

section \<open>The CloudflareDNSSync resource (api/v1alpha1)\<close>

text \<open>
  The types of the DNS sync resource, field by field. Where two Go types have a field
  of the same name, the field carries a prefix for its type.
\<close>

record TunnelRef =
  tr_Name :: string
  tr_Namespace :: string

record ZoneConfig =
  zc_Name :: string
  zc_ID :: string

record GatewayRoutesSource =
  grs_Enabled :: bool
  AnnotationFilter :: string

record ExplicitHostname =
  eh_Hostname :: string
  eh_Target :: string
  eh_Proxied :: bool
  eh_TTL :: string

record HostnameSource =
  GatewayRoutes :: GatewayRoutesSource
  Explicit :: "ExplicitHostname list"

record RecordDefaults =
  rd_Proxied :: bool
  rd_TTL :: string

record TXTRecordOwnership =
  txt_Enabled :: bool
  txt_Prefix :: string

record CommentOwnership =
  co_Enabled :: bool
  co_Template :: string

record OwnershipConfig =
  TXTRecord :: TXTRecordOwnership
  own_Comment :: CommentOwnership

record CleanupPolicy =
  DeleteOnRouteRemoval :: bool
  DeleteOnResourceRemoval :: bool
  OnlyManaged :: bool

record CloudflareDNSSyncSpec =
  spec_TunnelRef :: TunnelRef
  Zones :: "ZoneConfig list"
  Source :: HostnameSource
  Defaults :: RecordDefaults
  Ownership :: OwnershipConfig
  spec_CleanupPolicy :: CleanupPolicy
  FallbackCredentialsRef :: "SecretReference option"

record DNSRecordStatus =
  rs_Hostname :: string
  rs_Type :: string
  rs_Target :: string
  rs_Proxied :: bool
  rs_Status :: string
  rs_RecordID :: string
  rs_Error :: string

text \<open>A \<open>metav1.Condition\<close>.\<close>

record Condition =
  cond_Type :: string
  cond_Status :: string
  cond_Reason :: string
  cond_Message :: string
  cond_LastTransitionTime :: int
  cond_ObservedGeneration :: int

text \<open>The three counters are \<open>int32\<close>: 32-bit words, on which \<open>+\<close> wraps.\<close>

record CloudflareDNSSyncStatus =
  SyncedRecords :: "32 word"
  PendingRecords :: "32 word"
  FailedRecords :: "32 word"
  Records :: "DNSRecordStatus list"
  ObservedGeneration :: int
  LastSyncTime :: "int option"
  Conditions :: "Condition list"

text \<open>The resource: the fields of its ObjectMeta that the reconciler reads, spec and status.\<close>

record CloudflareDNSSync =
  sync_Name :: string
  sync_Namespace :: string
  sync_Generation :: int
  sync_Finalizers :: "string list"
  Spec :: CloudflareDNSSyncSpec
  Status :: CloudflareDNSSyncStatus

section \<open>Gateway API objects\<close>

text \<open>
  The Gateway API types are declared outside the files at hand; the records have the
  fields the controllers read. A pointer field is an \<open>option\<close>.
\<close>

record ParentReference =
  pr_Group :: "string option"
  pr_Kind :: "string option"
  pr_Namespace :: "string option"
  pr_Name :: string
  pr_SectionName :: "string option"

record RouteParentStatus =
  ParentRef :: ParentReference
  ControllerName :: string
  rps_Conditions :: "Condition list"

record BackendRef =
  br_Kind :: "string option"
  br_Namespace :: "string option"
  br_Name :: string

record HTTPRouteRule =
  BackendRefs :: "BackendRef list"

record HTTPRoute =
  route_Name :: string
  route_Namespace :: string
  route_Generation :: int
  route_Annotations :: "string \<rightharpoonup> string"
  route_Spec_ParentRefs :: "ParentReference list"
  route_Spec_Hostnames :: "string list"
  route_Spec_Rules :: "HTTPRouteRule list"
  route_Status_Parents :: "RouteParentStatus list"

record RouteNamespaces =
  From :: "string option"

record AllowedRoutes =
  Namespaces :: "RouteNamespaces option"

record Listener =
  lis_Name :: string
  lis_AllowedRoutes :: "AllowedRoutes option"

record Gateway =
  gw_Name :: string
  gw_Namespace :: string
  gw_Annotations :: "string \<rightharpoonup> string"
  gw_Spec_GatewayClassName :: string
  gw_Spec_Listeners :: "Listener list"

record GatewayClass =
  gc_Spec_ControllerName :: string


section \<open>The DNS sync reconciler (cloudflarednsync_controller.go)\<close>

text \<open>
  The reconciler with what it reaches through the cluster client: \<open>GetTunnel\<close> and
  \<open>GetSecret\<close> are \<open>r.Get\<close> at a key (namespace, name), \<open>ListGateways\<close> and
  \<open>ListHTTPRoutes\<close> are \<open>r.List\<close>, \<open>PatchSync\<close> is \<open>r.Patch\<close> of the resource
  (its error, \<open>None\<close> for \<open>nil\<close>). \<open>NewClient\<close> (package cloudflare), the two
  annotation keys and the clock are declared outside the files at hand and are fields
  too, and so is \<open>Quote\<close>: the quoting that the verb \<open>%q\<close> of \<open>fmt\<close> applies to a
  string (\<open>strconv.Quote\<close>, which puts the string between double quotes and escapes
  quotes, backslashes and bytes that do not print). Logging and event recording are
  left out.
\<close>

record 'w CloudflareDNSSyncReconciler =
  CFClient :: "'w Client option"
  GetTunnel :: "string \<times> string \<Rightarrow> string + CloudflareTunnel"
  GetSecret :: "string \<times> string \<Rightarrow> string + Secret"
  ListGateways :: "string + Gateway list"
  ListHTTPRoutes :: "string + HTTPRoute list"
  PatchSync :: "CloudflareDNSSync \<Rightarrow> string option"
  NewClient :: "string \<Rightarrow> string + 'w Client"
  Quote :: "string \<Rightarrow> string"
  AnnotationTunnelRef :: string
  AnnotationDNSSync :: string
  Now :: int

definition dnsSyncFinalizer :: string where
  "dnsSyncFinalizer = ''cfgate.io/dns-cleanup''"

definition defaultOwnershipPrefix :: string where
  "defaultOwnershipPrefix = ''_cfgate''"

text \<open>\<open>controllerutil.ContainsFinalizer\<close> and \<open>controllerutil.RemoveFinalizer\<close>.\<close>

definition ContainsFinalizer :: "CloudflareDNSSync \<Rightarrow> string \<Rightarrow> bool" where
  "ContainsFinalizer sync finalizer = (finalizer \<in> set (sync_Finalizers sync))"

definition RemoveFinalizer :: "CloudflareDNSSync \<Rightarrow> string \<Rightarrow> CloudflareDNSSync" where
  "RemoveFinalizer sync finalizer =
     sync\<lparr>sync_Finalizers := filter (\<lambda>f. f \<noteq> finalizer) (sync_Finalizers sync)\<rparr>"

definition resolveTunnel ::
  "'w CloudflareDNSSyncReconciler \<Rightarrow> CloudflareDNSSync \<Rightarrow> string + CloudflareTunnel" where
  "resolveTunnel r sync =
     (let namespace = (if tr_Namespace (spec_TunnelRef (Spec sync)) = [] then sync_Namespace sync
                       else tr_Namespace (spec_TunnelRef (Spec sync)))
      in case GetTunnel r (namespace, tr_Name (spec_TunnelRef (Spec sync))) of
           Inl err \<Rightarrow> Inl (''failed to get tunnel '' @ namespace @ ''/''
                            @ tr_Name (spec_TunnelRef (Spec sync)) @ '': '' @ err)
         | Inr tunnel \<Rightarrow> Inr tunnel)"

subsection \<open>Hostname collection\<close>

text \<open>The hostnames one route contributes for one gateway (the body of the loop over routes).\<close>

definition hostnamesOfRoute :: "CloudflareDNSSync \<Rightarrow> Gateway \<Rightarrow> HTTPRoute \<Rightarrow> string list" where
  "hostnamesOfRoute sync gw route =
     (if AnnotationFilter (GatewayRoutes (Source (Spec sync))) \<noteq> []
         \<and> route_Annotations route (AnnotationFilter (GatewayRoutes (Source (Spec sync)))) = None
      then []
      else concat (map (\<lambda>parentRef.
             let parentNS = (case pr_Namespace parentRef of
                               None \<Rightarrow> route_Namespace route | Some ns \<Rightarrow> ns)
             in if pr_Name parentRef = gw_Name gw \<and> parentNS = gw_Namespace gw
                then route_Spec_Hostnames route else [])
           (route_Spec_ParentRefs route)))"

text \<open>The loop over the relevant gateways; the routes are listed once per gateway.\<close>

fun gatewaysLoop ::
  "'w CloudflareDNSSyncReconciler \<Rightarrow> CloudflareDNSSync \<Rightarrow> Gateway list \<Rightarrow> string list
     \<Rightarrow> string + string list" where
  "gatewaysLoop r sync [] hostnames = Inr hostnames"
| "gatewaysLoop r sync (gw # gws) hostnames =
     (case ListHTTPRoutes r of
        Inl err \<Rightarrow> Inl (''failed to list httproutes: '' @ err)
      | Inr routes \<Rightarrow>
          gatewaysLoop r sync gws (hostnames @ concat (map (hostnamesOfRoute sync gw) routes)))"

definition collectHostnamesFromRoutes ::
  "'w CloudflareDNSSyncReconciler \<Rightarrow> CloudflareDNSSync \<Rightarrow> CloudflareTunnel \<Rightarrow> string + string list" where
  "collectHostnamesFromRoutes r sync tunnel =
     (case ListGateways r of
        Inl err \<Rightarrow> Inl (''failed to list gateways: '' @ err)
      | Inr gateways \<Rightarrow>
          let tunnelRef = tun_Namespace tunnel @ ''/'' @ tun_Name tunnel;
              relevantGateways = filter (\<lambda>gw.
                  gw_Annotations gw (AnnotationTunnelRef r) = Some tunnelRef
                  \<and> gw_Annotations gw (AnnotationDNSSync r) = Some ''enabled'') gateways
          in gatewaysLoop r sync relevantGateways [])"

text \<open>
  The deduplication loop: \<open>seen\<close> is the \<open>map[string]bool\<close> (a missing key reads
  \<open>false\<close>), \<open>unique\<close> the slice built so far.
\<close>

fun dedupLoop :: "string list \<Rightarrow> (string \<Rightarrow> bool) \<Rightarrow> string list \<Rightarrow> string list" where
  "dedupLoop [] seen unique = unique"
| "dedupLoop (h # hs) seen unique =
     (if \<not> seen h then dedupLoop hs (seen(h := True)) (unique @ [h])
      else dedupLoop hs seen unique)"

definition collectHostnames ::
  "'w CloudflareDNSSyncReconciler \<Rightarrow> CloudflareDNSSync \<Rightarrow> CloudflareTunnel \<Rightarrow> string + string list" where
  "collectHostnames r sync tunnel =
     (let hostnames = map eh_Hostname (Explicit (Source (Spec sync)))
      in case (if grs_Enabled (GatewayRoutes (Source (Spec sync)))
               then (case collectHostnamesFromRoutes r sync tunnel of
                       Inl err \<Rightarrow> Inl err
                     | Inr routeHostnames \<Rightarrow> Inr (hostnames @ routeHostnames))
               else Inr hostnames) of
           Inl err \<Rightarrow> Inl err
         | Inr hostnames \<Rightarrow> Inr (dedupLoop hostnames (\<lambda>h. False) []))"

subsection \<open>The Cloudflare client of a tunnel\<close>

definition createClientFromSecret ::
  "'w CloudflareDNSSyncReconciler \<Rightarrow> Secret \<Rightarrow> string \<Rightarrow> string + 'w Client" where
  "createClientFromSecret r secret tokenKey0 =
     (let tokenKey = (if tokenKey0 = [] then ''CLOUDFLARE_API_TOKEN'' else tokenKey0)
      in case Data secret tokenKey of
           None \<Rightarrow> Inl (''API token key '' @ Quote r tokenKey @ '' not found in secret'')
         | Some token \<Rightarrow> NewClient r token)"

text \<open>
  \<open>getCloudflareClient\<close>. The function handed to the cache returns the pair
  \<open>(Client, error)\<close> of \<open>createClientFromSecret\<close>; both clock readings of the cache are
  \<open>Now r\<close>. A pair \<open>(nil, nil)\<close> from the cache, which no path produces, is an error.
\<close>

definition getCloudflareClient ::
  "'w CloudflareDNSSyncReconciler \<Rightarrow> CloudflareTunnel \<Rightarrow> 'w state \<Rightarrow> (string + 'w Client) \<times> 'w state" where
  "getCloudflareClient r tunnel s =
     (case CFClient r of
        Some c \<Rightarrow> (Inr c, s)
      | None \<Rightarrow>
          (let secretNamespace =
                (if ref_Namespace (tun_Spec_Cloudflare_SecretRef tunnel) = [] then tun_Namespace tunnel
                 else ref_Namespace (tun_Spec_Cloudflare_SecretRef tunnel))
           in case GetSecret r (secretNamespace, ref_Name (tun_Spec_Cloudflare_SecretRef tunnel)) of
               Inl err \<Rightarrow> (Inl (''failed to get credentials secret: '' @ err), s)
             | Inr secret \<Rightarrow>
                 (case cache s of
                    None \<Rightarrow>
                      (createClientFromSecret r secret (tun_Spec_Cloudflare_SecretKeys_APIToken tunnel), s)
                  | Some cc \<Rightarrow>
                      (case GetOrCreate cc secret
                              (\<lambda>u. (case createClientFromSecret r secret
                                            (tun_Spec_Cloudflare_SecretKeys_APIToken tunnel) of
                                      Inl err \<Rightarrow> (None, Some err)
                                    | Inr cl \<Rightarrow> (Some cl, None), u))
                              (Now r) (Now r) () of
                         ((cl, Some err), cc1, u) \<Rightarrow> (Inl err, s\<lparr>cache := Some cc1\<rparr>)
                       | ((Some cl, None), cc1, u) \<Rightarrow> (Inr cl, s\<lparr>cache := Some cc1\<rparr>)
                       | ((None, None), cc1, u) \<Rightarrow> (Inl ''nil client'', s\<lparr>cache := Some cc1\<rparr>)))))"


subsection \<open>syncRecords\<close>

text \<open>The local variables of \<open>syncRecords\<close> that its first loop updates.\<close>

record syncAcc =
  recordStatuses :: "DNSRecordStatus list"
  syncedCount :: "32 word"
  pendingCount :: "32 word"
  failedCount :: "32 word"

definition failedStatus :: "string \<Rightarrow> string \<Rightarrow> DNSRecordStatus" where
  "failedStatus hostname err =
     \<lparr>rs_Hostname = hostname, rs_Type = ''CNAME'', rs_Target = [], rs_Proxied = False,
      rs_Status = ''Failed'', rs_RecordID = [], rs_Error = err\<rparr>"

text \<open>
  The body of the loop over the desired hostnames. An error of
  \<open>CreateOwnershipRecord\<close> is only logged.
\<close>

definition syncHostname ::
  "'w Client \<Rightarrow> CloudflareDNSSync \<Rightarrow> CloudflareTunnel \<Rightarrow> (string \<rightharpoonup> string) \<Rightarrow> string \<Rightarrow> string
     \<Rightarrow> syncAcc \<Rightarrow> 'w state \<Rightarrow> syncAcc \<times> 'w state" where
  "syncHostname dnsService sync tunnel zones ownershipPrefix hostname acc s =
     (let zoneName = ExtractZoneFromHostname hostname
      in case zones zoneName of
           None \<Rightarrow>
             (acc\<lparr>recordStatuses := recordStatuses acc
                      @ [failedStatus hostname (''zone '' @ zoneName @ '' not configured'')],
                  failedCount := failedCount acc + 1\<rparr>, s)
         | Some zoneID \<Rightarrow>
             (let comment = ''managed by cfgate, tunnel='' @ tun_Name tunnel;
                  desired = BuildCNAMERecord hostname (tun_Status_TunnelDomain tunnel)
                              (rd_Proxied (Defaults (Spec sync))) comment
              in case SyncRecord dnsService zoneID desired s of
                   (Inl err, s1) \<Rightarrow>
                     (acc\<lparr>recordStatuses := recordStatuses acc @ [failedStatus hostname err],
                          failedCount := failedCount acc + 1\<rparr>, s1)
                 | (Inr (record, modified), s1) \<Rightarrow>
                     (let s2 = (if txt_Enabled (TXTRecord (Ownership (Spec sync)))
                                then snd (CreateOwnershipRecord dnsService zoneID hostname
                                            (tun_Name tunnel) ownershipPrefix s1)
                                else s1)
                      in (acc\<lparr>recordStatuses := recordStatuses acc
                               @ [\<lparr>rs_Hostname = hostname, rs_Type = Type record,
                                   rs_Target = Content record, rs_Proxied = Proxied record,
                                   rs_Status = ''Synced'', rs_RecordID = ID record,
                                   rs_Error = []\<rparr>],
                              syncedCount := syncedCount acc + 1\<rparr>, s2))))"

fun syncLoop ::
  "'w Client \<Rightarrow> CloudflareDNSSync \<Rightarrow> CloudflareTunnel \<Rightarrow> (string \<rightharpoonup> string) \<Rightarrow> string \<Rightarrow> string list
     \<Rightarrow> syncAcc \<Rightarrow> 'w state \<Rightarrow> syncAcc \<times> 'w state" where
  "syncLoop dnsService sync tunnel zones ownershipPrefix [] acc s = (acc, s)"
| "syncLoop dnsService sync tunnel zones ownershipPrefix (hostname # hostnames) acc s =
     (case syncHostname dnsService sync tunnel zones ownershipPrefix hostname acc s of
        (acc1, s1) \<Rightarrow> syncLoop dnsService sync tunnel zones ownershipPrefix hostnames acc1 s1)"

text \<open>
  The body of the loop over the previous status records; \<open>found\<close> is the result of the
  inner search. Errors of the two deletions are only logged.
\<close>

definition deleteOrphan ::
  "'w Client \<Rightarrow> CloudflareDNSSync \<Rightarrow> (string \<rightharpoonup> string) \<Rightarrow> string \<Rightarrow> string list
     \<Rightarrow> DNSRecordStatus \<Rightarrow> 'w state \<Rightarrow> 'w state" where
  "deleteOrphan dnsService sync zones ownershipPrefix hostnames prevRecord s =
     (let found = (rs_Hostname prevRecord \<in> set hostnames)
      in if \<not> found \<and> rs_RecordID prevRecord \<noteq> []
         then (case zones (ExtractZoneFromHostname (rs_Hostname prevRecord)) of
                 None \<Rightarrow> s
               | Some zoneID \<Rightarrow>
                   (case FindRecordByName dnsService zoneID (rs_Hostname prevRecord)
                           (rs_Type prevRecord) s of
                      (Inl err, s1) \<Rightarrow> s1
                    | (Inr None, s1) \<Rightarrow> s1
                    | (Inr (Some existingRecord), s1) \<Rightarrow>
                        if IsOwnedByCfgate existingRecord [] []
                        then (let s2 = snd (DeleteRecord dnsService zoneID
                                              (rs_RecordID prevRecord) s1)
                              in if txt_Enabled (TXTRecord (Ownership (Spec sync)))
                                 then snd (DeleteOwnershipRecord dnsService zoneID
                                             (rs_Hostname prevRecord) ownershipPrefix s2)
                                 else s2)
                        else s1))
         else s)"

fun orphanLoop ::
  "'w Client \<Rightarrow> CloudflareDNSSync \<Rightarrow> (string \<rightharpoonup> string) \<Rightarrow> string \<Rightarrow> string list
     \<Rightarrow> DNSRecordStatus list \<Rightarrow> 'w state \<Rightarrow> 'w state" where
  "orphanLoop dnsService sync zones ownershipPrefix hostnames [] s = s"
| "orphanLoop dnsService sync zones ownershipPrefix hostnames (prevRecord # prevRecords) s =
     orphanLoop dnsService sync zones ownershipPrefix hostnames prevRecords
       (deleteOrphan dnsService sync zones ownershipPrefix hostnames prevRecord s)"

text \<open>\<open>syncRecords\<close> returns its error (\<open>None\<close> for \<open>nil\<close>), the resource and the state.\<close>

definition syncRecords ::
  "'w CloudflareDNSSyncReconciler \<Rightarrow> CloudflareDNSSync \<Rightarrow> CloudflareTunnel \<Rightarrow> string list
     \<Rightarrow> (string \<rightharpoonup> string) \<Rightarrow> 'w state \<Rightarrow> string option \<times> CloudflareDNSSync \<times> 'w state" where
  "syncRecords r sync tunnel hostnames zones s =
     (case getCloudflareClient r tunnel s of
        (Inl err, s0) \<Rightarrow> (Some (''failed to create Cloudflare client: '' @ err), sync, s0)
      | (Inr cfClient, s0) \<Rightarrow>
          (let ownershipPrefix =
                 (if txt_Prefix (TXTRecord (Ownership (Spec sync))) = [] then defaultOwnershipPrefix
                  else txt_Prefix (TXTRecord (Ownership (Spec sync))));
               start = \<lparr>recordStatuses = [], syncedCount = 0, pendingCount = 0, failedCount = 0\<rparr>
           in case syncLoop cfClient sync tunnel zones ownershipPrefix hostnames start s0 of
                (acc, s1) \<Rightarrow>
                  (let s2 = orphanLoop cfClient sync zones ownershipPrefix hostnames
                              (Records (Status sync)) s1
                   in (None,
                       sync\<lparr>Status := (Status sync)
                              \<lparr>Records := recordStatuses acc,
                               SyncedRecords := syncedCount acc,
                               PendingRecords := pendingCount acc,
                               FailedRecords := failedCount acc\<rparr>\<rparr>,
                       s2))))"

subsection \<open>Deletion\<close>

definition getCloudflareClientWithFallback ::
  "'w CloudflareDNSSyncReconciler \<Rightarrow> CloudflareDNSSync \<Rightarrow> 'w state \<Rightarrow> (string + 'w Client) \<times> 'w state" where
  "getCloudflareClientWithFallback r sync s =
     (case (case resolveTunnel r sync of
              Inr tunnel \<Rightarrow>
                (case getCloudflareClient r tunnel s of
                   (Inr cfClient, s1) \<Rightarrow> (Some cfClient, s1)
                 | (Inl err, s1) \<Rightarrow> (None, s1))
            | Inl err \<Rightarrow> (None, s)) of
        (Some cfClient, s1) \<Rightarrow> (Inr cfClient, s1)
      | (None, s1) \<Rightarrow>
          (case FallbackCredentialsRef (Spec sync) of
             None \<Rightarrow> (Inl ''tunnel credentials unavailable and no fallback configured'', s1)
           | Some fallbackRef \<Rightarrow>
               (let fallbackNamespace =
                      (if ref_Namespace fallbackRef = [] then sync_Namespace sync
                       else ref_Namespace fallbackRef)
                in case GetSecret r (fallbackNamespace, ref_Name fallbackRef) of
                     Inl err \<Rightarrow> (Inl (''failed to get fallback credentials secret: '' @ err), s1)
                   | Inr fallbackSecret \<Rightarrow>
                       (case Data fallbackSecret ''CLOUDFLARE_API_TOKEN'' of
                          None \<Rightarrow> (Inl ''CLOUDFLARE_API_TOKEN not found in fallback secret'', s1)
                        | Some token \<Rightarrow> (NewClient r token, s1)))))"

text \<open>The loop over the records of one zone; an error of \<open>DeleteRecord\<close> is only logged.\<close>

fun cleanupRecords ::
  "'w Client \<Rightarrow> CloudflareDNSSync \<Rightarrow> string \<Rightarrow> string \<Rightarrow> DNSRecord list \<Rightarrow> 'w state \<Rightarrow> 'w state" where
  "cleanupRecords dnsService sync tunnelName zoneID [] s = s"
| "cleanupRecords dnsService sync tunnelName zoneID (record # records) s =
     cleanupRecords dnsService sync tunnelName zoneID records
       (if IsOwnedByCfgate record [] tunnelName \<or> \<not> OnlyManaged (spec_CleanupPolicy (Spec sync))
        then snd (DeleteRecord dnsService zoneID (ID record) s)
        else s)"

text \<open>The body of the loop over the configured zones.\<close>

definition cleanupZone ::
  "'w Client \<Rightarrow> CloudflareDNSSync \<Rightarrow> string \<Rightarrow> string \<Rightarrow> ZoneConfig \<Rightarrow> 'w state \<Rightarrow> 'w state" where
  "cleanupZone dnsService sync ownershipPrefix tunnelName zoneConfig s =
     (case (if zc_ID zoneConfig = []
            then (case ResolveZone dnsService (zc_Name zoneConfig) s of
                    (Inl err, s1) \<Rightarrow> (None, s1)
                  | (Inr None, s1) \<Rightarrow> (None, s1)
                  | (Inr (Some zone), s1) \<Rightarrow> (Some (zone_ID zone), s1))
            else (Some (zc_ID zoneConfig), s)) of
        (None, s1) \<Rightarrow> s1
      | (Some zoneID, s1) \<Rightarrow>
          (case ListManagedRecords dnsService zoneID ownershipPrefix s1 of
             (Inl err, s2) \<Rightarrow> s2
           | (Inr records, s2) \<Rightarrow> cleanupRecords dnsService sync tunnelName zoneID records s2))"

fun cleanupZones ::
  "'w Client \<Rightarrow> CloudflareDNSSync \<Rightarrow> string \<Rightarrow> string \<Rightarrow> ZoneConfig list \<Rightarrow> 'w state \<Rightarrow> 'w state" where
  "cleanupZones dnsService sync ownershipPrefix tunnelName [] s = s"
| "cleanupZones dnsService sync ownershipPrefix tunnelName (zoneConfig # zoneConfigs) s =
     cleanupZones dnsService sync ownershipPrefix tunnelName zoneConfigs
       (cleanupZone dnsService sync ownershipPrefix tunnelName zoneConfig s)"

definition cleanupRecordsWithFallback ::
  "'w CloudflareDNSSyncReconciler \<Rightarrow> CloudflareDNSSync \<Rightarrow> 'w state \<Rightarrow> string option \<times> 'w state" where
  "cleanupRecordsWithFallback r sync s =
     (case getCloudflareClientWithFallback r sync s of
        (Inl err, s1) \<Rightarrow> (Some (''failed to get Cloudflare client: '' @ err), s1)
      | (Inr cfClient, s1) \<Rightarrow>
          (let ownershipPrefix =
                 (if txt_Prefix (TXTRecord (Ownership (Spec sync))) = [] then defaultOwnershipPrefix
                  else txt_Prefix (TXTRecord (Ownership (Spec sync))));
               tunnelName = (case resolveTunnel r sync of
                               Inr tunnel \<Rightarrow> tun_Name tunnel | Inl err \<Rightarrow> [])
           in (None, cleanupZones cfClient sync ownershipPrefix tunnelName (Zones (Spec sync)) s1)))"

text \<open>A \<open>ctrl.Result\<close>; \<open>reconcileDelete\<close> returns it with its error, the resource and the state.\<close>

record Result =
  Requeue :: bool
  RequeueAfter :: int

definition reconcileDelete ::
  "'w CloudflareDNSSyncReconciler \<Rightarrow> CloudflareDNSSync \<Rightarrow> 'w state
     \<Rightarrow> (Result \<times> string option) \<times> CloudflareDNSSync \<times> 'w state" where
  "reconcileDelete r sync s =
     (if \<not> ContainsFinalizer sync dnsSyncFinalizer
      then ((\<lparr>Requeue = False, RequeueAfter = 0\<rparr>, None), sync, s)
      else (let s1 = (if DeleteOnResourceRemoval (spec_CleanupPolicy (Spec sync))
                      then snd (cleanupRecordsWithFallback r sync s) else s);
                sync1 = RemoveFinalizer sync dnsSyncFinalizer
            in case PatchSync r sync1 of
                 Some err \<Rightarrow>
                   ((\<lparr>Requeue = False, RequeueAfter = 0\<rparr>,
                     Some (''failed to remove finalizer: '' @ err)), sync1, s1)
               | None \<Rightarrow> ((\<lparr>Requeue = False, RequeueAfter = 0\<rparr>, None), sync1, s1)))"


section \<open>Predicates on the log of calls\<close>

text \<open>
  The record that \<open>FindRecordByName\<close> returns from a listing: the first one of the name
  and the type.
\<close>

definition foundByName :: "string \<Rightarrow> string \<Rightarrow> DNSRecord list \<Rightarrow> DNSRecord option" where
  "foundByName name recordType records =
     find (\<lambda>record. Name record = name \<and> Type record = recordType) records"

text \<open>
  The most recent listing of a log: its zone and the records it returned. It is \<open>None\<close>
  when the log holds no listing or the most recent one failed.
\<close>

definition lastListing :: "call list \<Rightarrow> (string \<times> DNSRecord list) option" where
  "lastListing cs =
     foldl (\<lambda>l c. case c of
                     ListCall z (Inr records) \<Rightarrow> Some (z, records)
                   | ListCall z (Inl err) \<Rightarrow> None
                   | _ \<Rightarrow> l) None cs"

text \<open>The comment of a record contains the sentinel.\<close>

definition hasSentinel :: "DNSRecord \<Rightarrow> bool" where
  "hasSentinel record = Contains (Comment record) ''managed by cfgate''"


text \<open>The ownership prefix in force for a resource, as both paths compute it.\<close>

definition ownershipPrefixOf :: "CloudflareDNSSync \<Rightarrow> string" where
  "ownershipPrefixOf sync =
     (if txt_Prefix (TXTRecord (Ownership (Spec sync))) = [] then defaultOwnershipPrefix
      else txt_Prefix (TXTRecord (Ownership (Spec sync))))"








text \<open>
  What holds of the local variables of \<open>syncRecords\<close> between two rounds of its first
  loop: nothing is pending, the two other counters count the entries of their status,
  and every entry is \<open>Synced\<close> or \<open>Failed\<close>.
\<close>

definition accInv :: "syncAcc \<Rightarrow> bool" where
  "accInv acc =
     (pendingCount acc = 0
      \<and> syncedCount acc = of_nat (length (filter (\<lambda>st. rs_Status st = ''Synced'') (recordStatuses acc)))
      \<and> failedCount acc = of_nat (length (filter (\<lambda>st. rs_Status st = ''Failed'') (recordStatuses acc)))
      \<and> (\<forall>st \<in> set (recordStatuses acc). rs_Status st = ''Synced'' \<or> rs_Status st = ''Failed''))"


section \<open>The HTTPRoute reconciler (httproute_controller.go)\<close>

text \<open>
  An error of \<open>r.Get\<close>: \<open>apierrors.IsNotFound\<close> holds of it, or it is another error with
  its message.
\<close>

datatype get_error = NotFound | OtherError string

text \<open>
  The reconciler with what it reaches through the cluster client: \<open>r.Get\<close> of a route, a
  gateway and a service at a key (namespace, name) and of a gateway class at its name
  (for a service only the error matters), and \<open>r.Status().Update\<close> of the route. The
  constants \<open>GatewayControllerName\<close> and \<open>AnnotationTunnelRef\<close> and the clock are declared
  outside the files at hand and are fields too. Logging and events are left out.
\<close>

record HTTPRouteReconciler =
  GetHTTPRoute :: "string \<times> string \<Rightarrow> get_error + HTTPRoute"
  GetGateway :: "string \<times> string \<Rightarrow> get_error + Gateway"
  GetGatewayClass :: "string \<Rightarrow> get_error + GatewayClass"
  GetService :: "string \<times> string \<Rightarrow> get_error option"
  StatusUpdate :: "HTTPRoute \<Rightarrow> string option"
  GatewayControllerName :: string
  hr_AnnotationTunnelRef :: string
  hr_Now :: int

text \<open>The constant \<open>NamespacesFromSame\<close> of the Gateway API.\<close>

definition NamespacesFromSame :: string where
  "NamespacesFromSame = ''Same''"

text \<open>
  What \<open>validateParentRef\<close> returns: \<open>(true, "", nil)\<close>, or \<open>(false, reason, err)\<close> with
  an error that is never \<open>nil\<close>, given by its message.
\<close>

datatype validation = Accepted | Rejected string string

text \<open>The check of the first listener of the section name (the loop leaves at it).\<close>

definition listenerAllows :: "HTTPRoute \<Rightarrow> Gateway \<Rightarrow> Listener \<Rightarrow> bool" where
  "listenerAllows route gateway listener =
     (case lis_AllowedRoutes listener of
        None \<Rightarrow> True
      | Some allowed \<Rightarrow>
          (case Namespaces allowed of
             None \<Rightarrow> True
           | Some namespaces \<Rightarrow>
               \<not> (From namespaces = Some NamespacesFromSame
                  \<and> route_Namespace route \<noteq> gw_Namespace gateway)))"

definition validateParentRef :: "HTTPRouteReconciler \<Rightarrow> HTTPRoute \<Rightarrow> ParentReference \<Rightarrow> validation" where
  "validateParentRef r route ref =
     (let gwNamespace = (case pr_Namespace ref of None \<Rightarrow> route_Namespace route | Some ns \<Rightarrow> ns)
      in case GetGateway r (gwNamespace, pr_Name ref) of
           Inl NotFound \<Rightarrow>
             Rejected ''NoMatchingParent''
               (''gateway '' @ gwNamespace @ ''/'' @ pr_Name ref @ '' not found'')
         | Inl (OtherError err) \<Rightarrow> Rejected ''Error'' err
         | Inr gateway \<Rightarrow>
             (case GetGatewayClass r (gw_Spec_GatewayClassName gateway) of
                Inl NotFound \<Rightarrow>
                  Rejected ''NoMatchingParent''
                    (''gateway class '' @ gw_Spec_GatewayClassName gateway @ '' not found'')
              | Inl (OtherError err) \<Rightarrow> Rejected ''Error'' err
              | Inr gc \<Rightarrow>
                  if gc_Spec_ControllerName gc \<noteq> GatewayControllerName r
                  then Rejected ''NoMatchingParent'' ''gateway is not managed by cfgate''
                  else if gw_Annotations gateway (hr_AnnotationTunnelRef r) = None
                  then Rejected ''NoTunnelRef'' ''gateway has no tunnel reference''
                  else (case pr_SectionName ref of
                          None \<Rightarrow> Accepted
                        | Some sectionName \<Rightarrow>
                            (case find (\<lambda>listener. lis_Name listener = sectionName)
                                    (gw_Spec_Listeners gateway) of
                               None \<Rightarrow>
                                 Rejected ''NoMatchingListenerHostname''
                                   (''listener '' @ sectionName @ '' not found'')
                             | Some listener \<Rightarrow>
                                 if listenerAllows route gateway listener then Accepted
                                 else Rejected ''NotAllowedByListeners''
                                        ''route namespace not allowed by listener''))))"

text \<open>
  \<open>resolveBackends\<close> returns at the first backend that cannot be read: the two nested
  loops are one loop over the backends of all rules, in order.
\<close>

fun resolveBackendRefs :: "HTTPRouteReconciler \<Rightarrow> HTTPRoute \<Rightarrow> BackendRef list \<Rightarrow> string option" where
  "resolveBackendRefs r route [] = None"
| "resolveBackendRefs r route (backend # backends) =
     (if br_Kind backend \<noteq> None \<and> br_Kind backend \<noteq> Some ''Service''
      then resolveBackendRefs r route backends
      else (let namespace = (case br_Namespace backend of
                               None \<Rightarrow> route_Namespace route | Some ns \<Rightarrow> ns)
            in case GetService r (namespace, br_Name backend) of
                 Some NotFound \<Rightarrow>
                   Some (''service '' @ namespace @ ''/'' @ br_Name backend @ '' not found'')
               | Some (OtherError err) \<Rightarrow> Some (''failed to get service: '' @ err)
               | None \<Rightarrow> resolveBackendRefs r route backends))"

definition resolveBackends :: "HTTPRouteReconciler \<Rightarrow> HTTPRoute \<Rightarrow> string option" where
  "resolveBackends r route =
     resolveBackendRefs r route (concat (map BackendRefs (route_Spec_Rules route)))"

text \<open>The status that the loop over the parent references builds for one of them.\<close>

definition parentStatus :: "HTTPRouteReconciler \<Rightarrow> HTTPRoute \<Rightarrow> ParentReference \<Rightarrow> RouteParentStatus" where
  "parentStatus r route parentRef =
     (let parentNS = (case pr_Namespace parentRef of
                        None \<Rightarrow> route_Namespace route | Some ns \<Rightarrow> ns);
          accepted = \<lparr>cond_Type = ''Accepted'', cond_Status = ''True'', cond_Reason = ''Accepted'',
                      cond_Message = ''Route accepted by Gateway'',
                      cond_LastTransitionTime = hr_Now r,
                      cond_ObservedGeneration = route_Generation route\<rparr>;
          resolved = \<lparr>cond_Type = ''ResolvedRefs'', cond_Status = ''True'',
                      cond_Reason = ''ResolvedRefs'', cond_Message = ''All references resolved'',
                      cond_LastTransitionTime = hr_Now r,
                      cond_ObservedGeneration = route_Generation route\<rparr>
      in \<lparr>ParentRef = \<lparr>pr_Group = pr_Group parentRef, pr_Kind = pr_Kind parentRef,
                        pr_Namespace = Some parentNS, pr_Name = pr_Name parentRef,
                        pr_SectionName = pr_SectionName parentRef\<rparr>,
          ControllerName = GatewayControllerName r,
          rps_Conditions =
            [case validateParentRef r route parentRef of
               Accepted \<Rightarrow> accepted
             | Rejected reason message \<Rightarrow>
                 accepted\<lparr>cond_Status := ''False'', cond_Reason := reason, cond_Message := message\<rparr>,
             resolved]\<rparr>)"

text \<open>The update of the second condition of a parent status when a backend is missing.\<close>

definition backendNotFound :: "string \<Rightarrow> RouteParentStatus \<Rightarrow> RouteParentStatus" where
  "backendNotFound err status =
     status\<lparr>rps_Conditions := (rps_Conditions status)
       [1 := (rps_Conditions status ! 1)
               \<lparr>cond_Status := ''False'', cond_Reason := ''BackendNotFound'', cond_Message := err\<rparr>]\<rparr>"

text \<open>
  \<open>Reconcile\<close> of the route at a key (namespace, name) returns its result and error, and
  the route whose status it wrote, if it wrote one. Durations are in nanoseconds.
\<close>

definition Reconcile ::
  "HTTPRouteReconciler \<Rightarrow> string \<times> string \<Rightarrow> (Result \<times> string option) \<times> HTTPRoute option" where
  "Reconcile r req =
     (case GetHTTPRoute r req of
        Inl NotFound \<Rightarrow> ((\<lparr>Requeue = False, RequeueAfter = 0\<rparr>, None), None)
      | Inl (OtherError err) \<Rightarrow>
          ((\<lparr>Requeue = False, RequeueAfter = 0\<rparr>, Some (''failed to get HTTPRoute: '' @ err)), None)
      | Inr route \<Rightarrow>
          (let parentStatuses = map (parentStatus r route) (route_Spec_ParentRefs route);
               parentStatuses = (case resolveBackends r route of
                                   Some err \<Rightarrow> map (backendNotFound err) parentStatuses
                                 | None \<Rightarrow> parentStatuses);
               route1 = route\<lparr>route_Status_Parents := parentStatuses\<rparr>
           in case StatusUpdate r route1 of
                Some err \<Rightarrow>
                  ((\<lparr>Requeue = False, RequeueAfter = 30 * 1000000000\<rparr>, None), None)
              | None \<Rightarrow>
                  ((\<lparr>Requeue = False, RequeueAfter = 5 * 60 * 1000000000\<rparr>, None), Some route1)))"

section \<open>Deduplication, as specified\<close>

text \<open>
  Duplicates removed while the first occurrence of each element is kept: the first
  element stays, and so do the first occurrences among the others that differ from it.
\<close>

function firstOccurrences :: "'a list \<Rightarrow> 'a list" where
  "firstOccurrences [] = []"
| "firstOccurrences (x # xs) = x # firstOccurrences (filter (\<lambda>y. y \<noteq> x) xs)"
  by pat_completeness auto
termination
  by (relation "measure length") (auto simp: less_Suc_eq_le)


section \<open>Concrete inputs\<close>

text \<open>Objects on which the functions above are run in the instances below.\<close>

definition example_tunnel :: CloudflareTunnel where
  "example_tunnel =
     \<lparr>tun_Name = ''t1'', tun_Namespace = ''ns'',
      tun_Spec_Cloudflare_SecretRef = \<lparr>ref_Name = ''cf-credentials'', ref_Namespace = []\<rparr>,
      tun_Spec_Cloudflare_SecretKeys_APIToken = [],
      tun_Spec_Cloudflared_Protocol = ''quic'',
      tun_Spec_Cloudflared_Metrics_Port = 0,
      tun_Spec_OriginDefaults_ConnectTimeout = [],
      tun_Spec_OriginDefaults_NoTLSVerify = False,
      tun_Spec_OriginDefaults_HTTP2Origin = False,
      tun_Spec_FallbackTarget = [],
      tun_Status_TunnelID = ''abc'',
      tun_Status_TunnelDomain = ''abc.cfargotunnel.com''\<rparr>"

definition example_rule :: IngressRule where
  "example_rule = \<lparr>Hostname = ''app.example.com'', Path = [],
      Service = ''http://app.ns.svc.cluster.local:80'', OriginRequest = None\<rparr>"

definition secretA :: Secret where
  "secretA = \<lparr>UID = ''a:b'', ResourceVersion = ''c'', Data = Map.empty\<rparr>"

definition secretB :: Secret where
  "secretB = \<lparr>UID = ''a'', ResourceVersion = ''b:c'', Data = Map.empty\<rparr>"

definition secret1 :: Secret where
  "secret1 = \<lparr>UID = ''5f1c'', ResourceVersion = ''41'', Data = Map.empty\<rparr>"

definition secret2 :: Secret where
  "secret2 = \<lparr>UID = ''5f1c'', ResourceVersion = ''42'', Data = Map.empty\<rparr>"

text \<open>Two build functions whose state counts their invocations.\<close>

definition countingBuild :: "nat \<Rightarrow> (nat option \<times> string option) \<times> nat" where
  "countingBuild b = ((Some (100 + b), None), Suc b)"

definition failingBuild :: "nat \<Rightarrow> (nat option \<times> string option) \<times> nat" where
  "failingBuild b = ((None, Some ''invalid token''), Suc b)"


text \<open>
  An in-memory client on which the reconciler is run below: the state of the provider
  is the list of records of each zone; a created record gets the identifier
  \<open>new-\<close> followed by its name. No call fails, and no zone is found by name.
\<close>

definition memClient :: "(string \<Rightarrow> DNSRecord list) Client" where
  "memClient =
     \<lparr>ListDNSRecords = (\<lambda>zoneID w. (Inr (w zoneID), w)),
      CreateDNSRecord = (\<lambda>zoneID record w.
         (Inr (record\<lparr>ID := ''new-'' @ Name record\<rparr>),
          w(zoneID := w zoneID @ [record\<lparr>ID := ''new-'' @ Name record\<rparr>]))),
      UpdateDNSRecord = (\<lambda>zoneID recordID record w.
         (Inr (record\<lparr>ID := recordID\<rparr>),
          w(zoneID := map (\<lambda>x. if ID x = recordID then record\<lparr>ID := recordID\<rparr> else x) (w zoneID)))),
      DeleteDNSRecord = (\<lambda>zoneID recordID w.
         (None, w(zoneID := filter (\<lambda>x. ID x \<noteq> recordID) (w zoneID)))),
      GetZoneByName = (\<lambda>zoneName w. (Inr None, w))\<rparr>"

text \<open>
  A DNS sync resource in namespace \<open>ns\<close> for the tunnel \<open>t1\<close>, with the zone
  \<open>example.com\<close> (identifier \<open>z1\<close>), one explicit hostname with a target, a proxied
  flag and a TTL of its own, no fallback credentials, and the finalizer set.
\<close>

definition example_sync :: CloudflareDNSSync where
  "example_sync =
     \<lparr>sync_Name = ''dns'', sync_Namespace = ''ns'', sync_Generation = 1,
      sync_Finalizers = [''cfgate.io/dns-cleanup''],
      Spec = \<lparr>spec_TunnelRef = \<lparr>tr_Name = ''t1'', tr_Namespace = []\<rparr>,
              Zones = [\<lparr>zc_Name = ''example.com'', zc_ID = ''z1''\<rparr>],
              Source = \<lparr>GatewayRoutes = \<lparr>grs_Enabled = False, AnnotationFilter = []\<rparr>,
                        Explicit = [\<lparr>eh_Hostname = ''app.example.com'',
                                     eh_Target = ''origin.example.net'',
                                     eh_Proxied = False, eh_TTL = ''300''\<rparr>]\<rparr>,
              Defaults = \<lparr>rd_Proxied = True, rd_TTL = ''auto''\<rparr>,
              Ownership = \<lparr>TXTRecord = \<lparr>txt_Enabled = False, txt_Prefix = []\<rparr>,
                           own_Comment = \<lparr>co_Enabled = False, co_Template = []\<rparr>\<rparr>,
              spec_CleanupPolicy = \<lparr>DeleteOnRouteRemoval = True, DeleteOnResourceRemoval = True,
                                    OnlyManaged = False\<rparr>,
              FallbackCredentialsRef = None\<rparr>,
      Status = \<lparr>SyncedRecords = 0, PendingRecords = 0, FailedRecords = 0, Records = [],
                ObservedGeneration = 0, LastSyncTime = None, Conditions = []\<rparr>\<rparr>"

text \<open>
  A reconciler with the in-memory client injected, in a cluster that holds the tunnel
  \<open>ns/t1\<close> and no secret, and one in a cluster from which the tunnel is gone. Its
  \<open>Quote\<close> is what \<open>%q\<close> gives for a string of letters, digits and underscores, such
  as the names of the token keys: the string between two double quotes.
\<close>

definition example_reconciler :: "(string \<Rightarrow> DNSRecord list) CloudflareDNSSyncReconciler" where
  "example_reconciler =
     \<lparr>CFClient = Some memClient,
      GetTunnel = (\<lambda>key. if key = (''ns'', ''t1'') then Inr example_tunnel else Inl ''not found''),
      GetSecret = (\<lambda>key. Inl ''not found''),
      ListGateways = Inr [],
      ListHTTPRoutes = Inr [],
      PatchSync = (\<lambda>sync. None),
      NewClient = (\<lambda>token. Inr memClient),
      Quote = (\<lambda>s. CHR 0x22 # s @ [CHR 0x22]),
      AnnotationTunnelRef = ''cfgate.io/tunnel-ref'',
      AnnotationDNSSync = ''cfgate.io/dns-sync'',
      Now = 0\<rparr>"

definition orphaned_reconciler :: "(string \<Rightarrow> DNSRecord list) CloudflareDNSSyncReconciler" where
  "orphaned_reconciler = example_reconciler\<lparr>GetTunnel := (\<lambda>key. Inl ''not found'')\<rparr>"

text \<open>
  Three states of the provider: an empty zone; a zone with a CNAME for
  \<open>app.example.com\<close> that somebody else created; a zone with a TXT record under the
  ownership prefix whose comment is empty.
\<close>

definition foreign_cname :: DNSRecord where
  "foreign_cname =
     \<lparr>ID = ''r1'', Type = ''CNAME'', Name = ''app.example.com'', Content = ''origin.corp'',
      TTL = 300, Proxied = False, Comment = ''legacy''\<rparr>"


definition state_of :: "DNSRecord list \<Rightarrow> (string \<Rightarrow> DNSRecord list) state" where
  "state_of records =
     \<lparr>world = (\<lambda>zoneID. if zoneID = ''z1'' then records else []), calls = [], cache = None\<rparr>"

definition example_zones :: "string \<rightharpoonup> string" where
  "example_zones = [''example.com'' \<mapsto> ''z1'']"


definition owned_stale :: DNSRecord where
  "owned_stale =
     \<lparr>ID = ''r3'', Type = ''CNAME'', Name = ''app.example.com'', Content = ''old.cfargotunnel.com'',
      TTL = 1, Proxied = True, Comment = ''managed by cfgate, tunnel=t1''\<rparr>"

text \<open>The record that \<open>syncRecords\<close> wants for \<open>app.example.com\<close> and the tunnel \<open>t1\<close>.\<close>

definition desired_cname :: DNSRecord where
  "desired_cname =
     \<lparr>ID = [], Type = ''CNAME'', Name = ''app.example.com'', Content = ''abc.cfargotunnel.com'',
      TTL = 1, Proxied = True, Comment = ''managed by cfgate, tunnel=t1''\<rparr>"


definition owned_old :: DNSRecord where
  "owned_old =
     \<lparr>ID = ''r4'', Type = ''CNAME'', Name = ''old.example.com'', Content = ''abc.cfargotunnel.com'',
      TTL = 1, Proxied = True, Comment = ''managed by cfgate, tunnel=t1''\<rparr>"



text \<open>
  A gateway \<open>ns/gw\<close> of the operator's class, bound to the tunnel \<open>ns/t1\<close> with DNS sync
  enabled, and a route \<open>ns/web\<close> under it with two hostnames, whose status already holds
  an entry written by another controller.
\<close>

definition example_gateway :: Gateway where
  "example_gateway =
     \<lparr>gw_Name = ''gw'', gw_Namespace = ''ns'',
      gw_Annotations = [''cfgate.io/tunnel-ref'' \<mapsto> ''ns/t1'', ''cfgate.io/dns-sync'' \<mapsto> ''enabled''],
      gw_Spec_GatewayClassName = ''cfgate'', gw_Spec_Listeners = []\<rparr>"

definition foreign_parent_status :: RouteParentStatus where
  "foreign_parent_status =
     \<lparr>ParentRef = \<lparr>pr_Group = None, pr_Kind = None, pr_Namespace = Some ''mesh'',
                    pr_Name = ''mesh-gw'', pr_SectionName = None\<rparr>,
      ControllerName = ''example.com/mesh-controller'',
      rps_Conditions = [\<lparr>cond_Type = ''Accepted'', cond_Status = ''True'', cond_Reason = ''Accepted'',
                         cond_Message = ''accepted by mesh'', cond_LastTransitionTime = 7,
                         cond_ObservedGeneration = 1\<rparr>]\<rparr>"

definition example_route :: HTTPRoute where
  "example_route =
     \<lparr>route_Name = ''web'', route_Namespace = ''ns'', route_Generation = 1,
      route_Annotations = Map.empty,
      route_Spec_ParentRefs = [\<lparr>pr_Group = None, pr_Kind = None, pr_Namespace = None,
                                pr_Name = ''gw'', pr_SectionName = None\<rparr>],
      route_Spec_Hostnames = [''app.example.com'', ''api.example.com''],
      route_Spec_Rules = [],
      route_Status_Parents = [foreign_parent_status]\<rparr>"

definition example_route_reconciler :: HTTPRouteReconciler where
  "example_route_reconciler =
     \<lparr>GetHTTPRoute = (\<lambda>key. if key = (''ns'', ''web'') then Inr example_route else Inl NotFound),
      GetGateway = (\<lambda>key. if key = (''ns'', ''gw'') then Inr example_gateway else Inl NotFound),
      GetGatewayClass = (\<lambda>name. if name = ''cfgate''
         then Inr \<lparr>gc_Spec_ControllerName = ''cfgate.io/cloudflare-tunnel-controller''\<rparr>
         else Inl NotFound),
      GetService = (\<lambda>key. None),
      StatusUpdate = (\<lambda>route. None),
      GatewayControllerName = ''cfgate.io/cloudflare-tunnel-controller'',
      hr_AnnotationTunnelRef = ''cfgate.io/tunnel-ref'',
      hr_Now = 100\<rparr>"

text \<open>
  A DNS sync resource that takes hostnames from the routes too and names
  \<open>x.example.com\<close> twice, and a reconciler whose cluster holds the gateway and the route.
\<close>

definition routes_sync :: CloudflareDNSSync where
  "routes_sync =
     example_sync\<lparr>Spec := (Spec example_sync)
       \<lparr>Source := \<lparr>GatewayRoutes = \<lparr>grs_Enabled = True, AnnotationFilter = []\<rparr>,
                     Explicit = [\<lparr>eh_Hostname = ''x.example.com'', eh_Target = [],
                                  eh_Proxied = True, eh_TTL = ''auto''\<rparr>,
                                 \<lparr>eh_Hostname = ''app.example.com'', eh_Target = [],
                                  eh_Proxied = True, eh_TTL = ''auto''\<rparr>,
                                 \<lparr>eh_Hostname = ''x.example.com'', eh_Target = [],
                                  eh_Proxied = True, eh_TTL = ''auto''\<rparr>]\<rparr>\<rparr>\<rparr>"

definition routes_reconciler :: "(string \<Rightarrow> DNSRecord list) CloudflareDNSSyncReconciler" where
  "routes_reconciler =
     example_reconciler\<lparr>ListGateways := Inr [example_gateway], ListHTTPRoutes := Inr [example_route]\<rparr>"










definition slip_sync :: CloudflareDNSSync where
  "slip_sync =
     example_sync\<lparr>Status := (Status example_sync)
       \<lparr>Records := [\<lparr>rs_Hostname = ''old.example.com'', rs_Type = ''CNAME'',
                     rs_Target = ''origin.corp'', rs_Proxied = False,
                     rs_Status = ''Synced'', rs_RecordID = ''r1'', rs_Error = []\<rparr>],
        SyncedRecords := 1\<rparr>\<rparr>"


section \<open>Zone extraction\<close>

lemma Split_nonempty: "Split s sep \<noteq> []"
  by (induction s) (auto split: list.splits)

lemma Split_no_sep: "sep \<notin> set l \<Longrightarrow> Split l sep = [l]"
  by (induction l) auto

lemma Split_append_sep:
  "sep \<notin> set l \<Longrightarrow> Split (l @ sep # rest) sep = l # Split rest sep"
  by (induction l) auto

lemma Split_Join:
  "ls \<noteq> [] \<Longrightarrow> \<forall>l \<in> set ls. sep \<notin> set l \<Longrightarrow> Split (Join ls [sep]) sep = ls"
proof (induction ls "[sep]" rule: Join.induct)
  case 1
  then show ?case by simp
next
  case (2 x)
  then show ?case by (simp add: Split_no_sep)
next
  case (3 x y ys)
  then show ?case by (simp add: Split_append_sep)
qed

lemma drop_two_last: "drop (length (pre @ [a, b]) - 2) (pre @ [a, b]) = [a, b]"
  by simp

text \<open>
  C9. A hostname made of the dot-free labels \<open>pre @ [a, b]\<close> joined by dots has at
  least two labels; \<open>ExtractZoneFromHostname\<close> returns \<open>a.b\<close>, the last two labels
  joined by a dot, whatever the leading labels \<open>pre\<close> are. For \<open>app.example.com\<close>
  the result is \<open>example.com\<close>.
\<close>

theorem ExtractZoneFromHostname_last_two:
  assumes "\<forall>l \<in> set (pre @ [a, b]). CHR ''.'' \<notin> set l"
  shows "ExtractZoneFromHostname (Join (pre @ [a, b]) ''.'') = a @ ''.'' @ b"
proof -
  have "Split (Join (pre @ [a, b]) ''.'') (CHR ''.'') = pre @ [a, b]"
    using assms by (intro Split_Join) auto
  then show ?thesis
    unfolding ExtractZoneFromHostname_def Let_def
    by (simp del: Join.simps add: Join.simps(3) Join.simps(2))
qed

theorem ExtractZoneFromHostname_last_two_witness:
  "CHR ''.'' \<notin> set ''app'' \<and> CHR ''.'' \<notin> set ''example'' \<and> CHR ''.'' \<notin> set ''com''
   \<and> Join ([''app''] @ [''example'', ''com'']) ''.'' = ''app.example.com''
   \<and> ExtractZoneFromHostname ''app.example.com'' = ''example.com''"
proof -
  have h: "\<forall>l \<in> set ([''app''] @ [''example'', ''com'']). CHR ''.'' \<notin> set l"
    by simp
  have j: "Join ([''app''] @ [''example'', ''com'']) ''.'' = ''app.example.com''"
    by simp
  show ?thesis
    using h j ExtractZoneFromHostname_last_two [OF h] by simp
qed

section \<open>The catch-all ingress rule\<close>

lemma nth_length_minus_one: "xs \<noteq> [] \<Longrightarrow> xs ! (length xs - Suc 0) = last xs"
  by (simp add: last_conv_nth)

lemma lastIsCatchAll_AddRule: "lastIsCatchAll c \<Longrightarrow> lastIsCatchAll (AddRule c rule)"
  unfolding lastIsCatchAll_def AddRule_def Let_def
  by (simp add: nth_length_minus_one)

lemma lastIsCatchAll_SetCatchAll: "lastIsCatchAll (SetCatchAll c service)"
  unfolding lastIsCatchAll_def SetCatchAll_def Let_def
  by auto

lemma lastIsCatchAll_applyCall: "lastIsCatchAll c \<Longrightarrow> lastIsCatchAll (applyCall c x)"
  by (cases x) (simp_all add: lastIsCatchAll_AddRule lastIsCatchAll_SetCatchAll)

lemma lastIsCatchAll_foldl:
  "lastIsCatchAll c \<Longrightarrow> lastIsCatchAll (foldl applyCall c xs)"
  by (induction xs arbitrary: c) (simp_all add: lastIsCatchAll_applyCall)

lemma Ingress_NewTunnelConfig:
  "Ingress (NewTunnelConfig tunnel tunnelID) =
     [\<lparr>Hostname = [], Path = [],
       Service = (if tun_Spec_FallbackTarget tunnel = [] then ''http_status:404''
                  else tun_Spec_FallbackTarget tunnel),
       OriginRequest = None\<rparr>]"
  unfolding NewTunnelConfig_def Let_def by simp

lemma validateRules_None_iff:
  "validateRules i rules = None \<longleftrightarrow> (\<forall>r \<in> set rules. Service r \<noteq> [])"
  by (induction rules arbitrary: i) (auto split: if_splits)

lemma Validate_None:
  "Validate c = None \<longleftrightarrow>
     TunnelID c \<noteq> [] \<and> Ingress c \<noteq> [] \<and> Hostname (last (Ingress c)) = []
     \<and> Path (last (Ingress c)) = [] \<and> (\<forall>r \<in> set (Ingress c). Service r \<noteq> [])"
  unfolding Validate_def Let_def
  by (cases "Ingress c = []") (auto simp add: nth_length_minus_one validateRules_None_iff)

text \<open>
  C6. The configuration built by \<open>NewTunnelConfig\<close> ends in a rule with empty hostname
  and empty path, whose service is \<open>http_status:404\<close> when the tunnel has no fallback
  target. \<open>AddRule\<close> and \<open>SetCatchAll\<close> keep the last rule a catch-all on every
  configuration whose last rule is one, hence after every run \<open>cs\<close> of such calls on
  the configuration built by \<open>NewTunnelConfig\<close>. \<open>Validate\<close> returns \<open>nil\<close> only when
  the last rule has no hostname and no path and every rule has a service.
\<close>

theorem TunnelConfig_catch_all:
  "lastIsCatchAll (NewTunnelConfig tunnel tunnelID)
   \<and> (tun_Spec_FallbackTarget tunnel = [] \<longrightarrow>
        Service (last (Ingress (NewTunnelConfig tunnel tunnelID))) = ''http_status:404'')
   \<and> (lastIsCatchAll c \<longrightarrow> lastIsCatchAll (AddRule c rule) \<and> lastIsCatchAll (SetCatchAll c service))
   \<and> lastIsCatchAll (foldl applyCall (NewTunnelConfig tunnel tunnelID) cs)
   \<and> (Validate c = None \<longrightarrow>
        Ingress c \<noteq> [] \<and> Hostname (last (Ingress c)) = [] \<and> Path (last (Ingress c)) = []
        \<and> (\<forall>r \<in> set (Ingress c). Service r \<noteq> []))"
proof -
  have new: "lastIsCatchAll (NewTunnelConfig tunnel tunnelID)"
    by (simp add: lastIsCatchAll_def Ingress_NewTunnelConfig)
  have svc: "tun_Spec_FallbackTarget tunnel = [] \<longrightarrow>
        Service (last (Ingress (NewTunnelConfig tunnel tunnelID))) = ''http_status:404''"
    by (simp add: Ingress_NewTunnelConfig)
  have pres: "lastIsCatchAll c \<longrightarrow> lastIsCatchAll (AddRule c rule) \<and> lastIsCatchAll (SetCatchAll c service)"
    by (simp add: lastIsCatchAll_AddRule lastIsCatchAll_SetCatchAll)
  have run: "lastIsCatchAll (foldl applyCall (NewTunnelConfig tunnel tunnelID) cs)"
    using new by (rule lastIsCatchAll_foldl)
  have val: "Validate c = None \<longrightarrow>
        Ingress c \<noteq> [] \<and> Hostname (last (Ingress c)) = [] \<and> Path (last (Ingress c)) = []
        \<and> (\<forall>r \<in> set (Ingress c). Service r \<noteq> [])"
    by (simp add: Validate_None)
  from new svc pres run val show ?thesis by blast
qed

theorem TunnelConfig_catch_all_witness:
  "tun_Spec_FallbackTarget example_tunnel = []
   \<and> Service (last (Ingress (NewTunnelConfig example_tunnel ''abc''))) = ''http_status:404''
   \<and> lastIsCatchAll (NewTunnelConfig example_tunnel ''abc'')
   \<and> lastIsCatchAll (AddRule (NewTunnelConfig example_tunnel ''abc'') example_rule)
   \<and> lastIsCatchAll (SetCatchAll (NewTunnelConfig example_tunnel ''abc'') ''http_status:503'')
   \<and> lastIsCatchAll (foldl applyCall (NewTunnelConfig example_tunnel ''abc'')
         [CallAddRule example_rule, CallSetCatchAll ''http_status:503''])
   \<and> Validate (NewTunnelConfig example_tunnel ''abc'') = None
   \<and> Hostname (last (Ingress (NewTunnelConfig example_tunnel ''abc''))) = []
   \<and> Path (last (Ingress (NewTunnelConfig example_tunnel ''abc''))) = []
   \<and> Service (hd (Ingress (NewTunnelConfig example_tunnel ''abc''))) \<noteq> []"
proof -
  have f: "tun_Spec_FallbackTarget example_tunnel = []"
    by (simp add: example_tunnel_def)
  have v: "Validate (NewTunnelConfig example_tunnel ''abc'') = None"
    by (simp add: Validate_def Ingress_NewTunnelConfig NewTunnelConfig_def Let_def example_tunnel_def)
  note t = TunnelConfig_catch_all [of example_tunnel "''abc''" "NewTunnelConfig example_tunnel ''abc''"
      example_rule "''http_status:503''"
      "[CallAddRule example_rule, CallSetCatchAll ''http_status:503'']"]
  from t f v show ?thesis
    by (simp add: Ingress_NewTunnelConfig)
qed


section \<open>The credential cache\<close>

lemma append_sep_inject:
  "sep \<notin> set u1 \<Longrightarrow> sep \<notin> set u2 \<Longrightarrow> u1 @ sep # r1 = u2 @ sep # r2 \<Longrightarrow> u1 = u2 \<and> r1 = r2"
proof (induction u1 arbitrary: u2)
  case Nil
  then show ?case by (cases u2) auto
next
  case (Cons a u1)
  then show ?case by (cases u2) auto
qed

lemma cacheKey_inject:
  assumes "CHR '':'' \<notin> set (UID s1)" "CHR '':'' \<notin> set (UID s2)" "cacheKey s1 = cacheKey s2"
  shows "UID s1 = UID s2 \<and> ResourceVersion s1 = ResourceVersion s2"
  using assms append_sep_inject [of "CHR '':''" "UID s1" "UID s2" "ResourceVersion s1" "ResourceVersion s2"]
  by (simp add: cacheKey_def)

lemma GetOrCreate_hit:
  assumes "entries c (cacheKey secret) = Some e" "\<not> tGet > expiresAt e" "client e = Some cl"
  shows "GetOrCreate c secret createFn tGet tSet b = ((Some cl, None), c, b)"
  using assms by (simp add: GetOrCreate_def Get_def Let_def)

lemma Get_miss:
  "\<not> cacheHit c secret now \<Longrightarrow> fst (Get c secret now) = None"
  by (auto simp: cacheHit_def Get_def Let_def split: option.splits)

lemma Get_entries_other:
  "k \<noteq> cacheKey secret \<Longrightarrow> entries (snd (Get c secret now)) k = entries c k"
  by (auto simp: Get_def Let_def split: option.splits)

lemma Get_ttl: "ttl (snd (Get c secret now)) = ttl c"
  by (auto simp: Get_def Let_def split: option.splits)

lemma GetOrCreate_miss_ok:
  assumes "\<not> cacheHit c secret tGet" "createFn b = ((cl, None), b1)"
  shows "GetOrCreate c secret createFn tGet tSet b = ((cl, None), Set (snd (Get c secret tGet)) secret cl tSet, b1)"
  using assms Get_miss [OF assms(1)]
  by (cases "Get c secret tGet") (simp add: GetOrCreate_def)

lemma GetOrCreate_miss_err:
  assumes "\<not> cacheHit c secret tGet" "createFn b = ((cl, Some err), b1)"
  shows "GetOrCreate c secret createFn tGet tSet b = ((None, Some err), snd (Get c secret tGet), b1)"
  using assms Get_miss [OF assms(1)]
  by (cases "Get c secret tGet") (simp add: GetOrCreate_def)

lemma Set_entries:
  "entries (Set c secret cl now) = (entries c)(cacheKey secret \<mapsto> \<lparr>client = cl, expiresAt = now + ttl c\<rparr>)"
  by (simp add: Set_def)

lemma Get_entries_upd:
  "(entries (snd (Get c secret now)))(cacheKey secret \<mapsto> v) = (entries c)(cacheKey secret \<mapsto> v)"
  by (auto simp: Get_def Let_def split: option.splits)



lemma GetOrCreate_hit_ex:
  assumes "cacheHit c secret tGet"
  shows "\<exists>e cl. entries c (cacheKey secret) = Some e \<and> client e = Some cl
         \<and> GetOrCreate c secret createFn tGet tSet b = ((Some cl, None), c, b)"
proof (cases "entries c (cacheKey secret)")
  case None
  with assms show ?thesis by (simp add: cacheHit_def)
next
  case (Some e)
  with assms have ne: "\<not> tGet > expiresAt e" and "client e \<noteq> None"
    by (simp_all add: cacheHit_def)
  then obtain cl where cl: "client e = Some cl" by (cases "client e") simp_all
  have "GetOrCreate c secret createFn tGet tSet b = ((Some cl, None), c, b)"
    using Some ne cl by (rule GetOrCreate_hit)
  with Some cl show ?thesis by simp
qed

lemma GetOrCreate_miss_ok_ex:
  assumes "\<not> cacheHit c secret tGet" "createFn b = ((cl', None), b1)"
  shows "\<exists>c'. GetOrCreate c secret createFn tGet tSet b = ((cl', None), c', b1)
         \<and> entries c' = (entries c)(cacheKey secret \<mapsto> \<lparr>client = cl', expiresAt = tSet + ttl c\<rparr>)
         \<and> ttl c' = ttl c"
proof (intro exI conjI)
  show "GetOrCreate c secret createFn tGet tSet b
      = ((cl', None), Set (snd (Get c secret tGet)) secret cl' tSet, b1)"
    using assms by (rule GetOrCreate_miss_ok)
  show "entries (Set (snd (Get c secret tGet)) secret cl' tSet)
      = (entries c)(cacheKey secret \<mapsto> \<lparr>client = cl', expiresAt = tSet + ttl c\<rparr>)"
    by (simp only: Set_entries Get_entries_upd Get_ttl)
  show "ttl (Set (snd (Get c secret tGet)) secret cl' tSet) = ttl c"
    by (simp add: Set_def Get_ttl)
qed

lemma GetOrCreate_miss_err_ex:
  assumes "\<not> cacheHit c secret tGet" "createFn b = ((cl', Some err), b1)"
  shows "\<exists>c'. GetOrCreate c secret createFn tGet tSet b = ((None, Some err), c', b1)
         \<and> (\<forall>k. k \<noteq> cacheKey secret \<longrightarrow> entries c' k = entries c k)"
proof (intro exI conjI)
  show "GetOrCreate c secret createFn tGet tSet b = ((None, Some err), snd (Get c secret tGet), b1)"
    using assms by (rule GetOrCreate_miss_err)
  show "\<forall>k. k \<noteq> cacheKey secret \<longrightarrow> entries (snd (Get c secret tGet)) k = entries c k"
    by (simp add: Get_entries_other)
qed


lemma cacheKey_inject_len:
  assumes "length (UID s1) = length (UID s2)" "cacheKey s1 = cacheKey s2"
  shows "UID s1 = UID s2 \<and> ResourceVersion s1 = ResourceVersion s2"
  using assms by (simp add: cacheKey_def)

lemma holdsClients_New: "holdsClients (NewCredentialCache t)"
  by (simp add: holdsClients_def NewCredentialCache_def)

lemma cacheHit_holdsClients:
  "holdsClients c \<Longrightarrow>
   cacheHit c secret now \<longleftrightarrow> (\<exists>e. entries c (cacheKey secret) = Some e \<and> \<not> now > expiresAt e)"
  by (auto simp: holdsClients_def cacheHit_def split: option.splits)

lemma holdsClients_Get: "holdsClients c \<Longrightarrow> holdsClients (snd (Get c secret now))"
  by (auto simp: holdsClients_def Get_def Let_def split: option.splits if_splits)

lemma holdsClients_GetOrCreate:
  assumes "holdsClients c" "createFn b = ((cl, e), b1)" "cl \<noteq> None \<or> e \<noteq> None"
  shows "holdsClients (fst (snd (GetOrCreate c secret createFn tGet tSet b)))"
proof -
  obtain g c1 where g: "Get c secret tGet = (g, c1)" by (cases "Get c secret tGet")
  with holdsClients_Get [OF assms(1), of secret tGet] have h: "holdsClients c1" by simp
  show ?thesis
  proof (cases g)
    case (Some x)
    with g h show ?thesis by (simp add: GetOrCreate_def)
  next
    case None
    show ?thesis
    proof (cases e)
      case (Some err)
      with g None h assms(2) show ?thesis by (simp add: GetOrCreate_def)
    next
      case n: None
      with assms(3) obtain x where "cl = Some x" by auto
      with g None n h assms(2) show ?thesis
        by (auto simp: GetOrCreate_def Set_def holdsClients_def)
    qed
  qed
qed

lemma GetOrCreate_miss_err_none:
  assumes "holdsClients c" "\<not> cacheHit c secret tGet" "createFn b = ((cl, Some err), b1)"
  shows "entries (fst (snd (GetOrCreate c secret createFn tGet tSet b))) (cacheKey secret) = None"
  using assms
  by (auto simp: holdsClients_def cacheHit_def GetOrCreate_def Get_def Let_def
      split: option.splits if_splits)

text \<open>
  C7, as amended. \<open>GetOrCreate\<close> returns the cached client, and neither invokes
  \<open>createFn\<close> nor changes the cache, when an unexpired entry that holds a client exists
  under the key \<open>UID:ResourceVersion\<close> of the secret. Otherwise it invokes \<open>createFn\<close>;
  when that returns no error the client is stored under the key with expiry
  \<open>tSet + ttl\<close> and returned, and when it returns an error the error is returned, the
  other entries are left as they were and nothing is stored under the key. A new cache
  has no entry, \<open>GetOrCreate\<close> leaves every entry with a client whenever \<open>createFn\<close>
  returns a client or an error, and in a cache whose entries all hold a client an
  unexpired entry under the key is all it takes for the cached client to be returned.
  Two secrets that differ in UID or ResourceVersion have different keys when their UIDs
  have the same length (as the UUIDs that a cluster assigns have, and as the UIDs of
  one secret before and after a change have) or contain no colon.
\<close>

theorem GetOrCreate_cached_or_built:
  "(cacheHit c secret tGet \<longrightarrow>
      (\<exists>e cl. entries c (cacheKey secret) = Some e \<and> client e = Some cl
         \<and> GetOrCreate c secret createFn tGet tSet b = ((Some cl, None), c, b)))
   \<and> (\<not> cacheHit c secret tGet \<and> createFn b = ((cl', None), b1) \<longrightarrow>
      (\<exists>c'. GetOrCreate c secret createFn tGet tSet b = ((cl', None), c', b1)
         \<and> entries c' = (entries c)(cacheKey secret \<mapsto> \<lparr>client = cl', expiresAt = tSet + ttl c\<rparr>)
         \<and> ttl c' = ttl c))
   \<and> (\<not> cacheHit c secret tGet \<and> createFn b = ((cl', Some err), b1) \<longrightarrow>
      (\<exists>c'. GetOrCreate c secret createFn tGet tSet b = ((None, Some err), c', b1)
         \<and> (\<forall>k. k \<noteq> cacheKey secret \<longrightarrow> entries c' k = entries c k)))
   \<and> (CHR '':'' \<notin> set (UID s1) \<and> CHR '':'' \<notin> set (UID s2)
        \<and> (UID s1 \<noteq> UID s2 \<or> ResourceVersion s1 \<noteq> ResourceVersion s2)
      \<longrightarrow> cacheKey s1 \<noteq> cacheKey s2)
   \<and> (length (UID s1) = length (UID s2)
        \<and> (UID s1 \<noteq> UID s2 \<or> ResourceVersion s1 \<noteq> ResourceVersion s2)
      \<longrightarrow> cacheKey s1 \<noteq> cacheKey s2)
   \<and> holdsClients (NewCredentialCache t :: 'a CredentialCache)
   \<and> (holdsClients c \<longrightarrow>
        cacheHit c secret tGet
          = (\<exists>e. entries c (cacheKey secret) = Some e \<and> \<not> tGet > expiresAt e))
   \<and> (holdsClients c \<and> createFn b = ((cl', err'), b1) \<and> (cl' \<noteq> None \<or> err' \<noteq> None) \<longrightarrow>
        holdsClients (fst (snd (GetOrCreate c secret createFn tGet tSet b))))
   \<and> (holdsClients c \<and> \<not> cacheHit c secret tGet \<and> createFn b = ((cl', Some err), b1) \<longrightarrow>
        entries (fst (snd (GetOrCreate c secret createFn tGet tSet b))) (cacheKey secret) = None)"
proof (intro conjI impI)
  assume "cacheHit c secret tGet"
  then show "\<exists>e cl. entries c (cacheKey secret) = Some e \<and> client e = Some cl
         \<and> GetOrCreate c secret createFn tGet tSet b = ((Some cl, None), c, b)"
    by (rule GetOrCreate_hit_ex)
next
  assume a: "\<not> cacheHit c secret tGet \<and> createFn b = ((cl', None), b1)"
  show "\<exists>c'. GetOrCreate c secret createFn tGet tSet b = ((cl', None), c', b1)
         \<and> entries c' = (entries c)(cacheKey secret \<mapsto> \<lparr>client = cl', expiresAt = tSet + ttl c\<rparr>)
         \<and> ttl c' = ttl c"
    using a [THEN conjunct1] a [THEN conjunct2] by (rule GetOrCreate_miss_ok_ex)
next
  assume a: "\<not> cacheHit c secret tGet \<and> createFn b = ((cl', Some err), b1)"
  show "\<exists>c'. GetOrCreate c secret createFn tGet tSet b = ((None, Some err), c', b1)
         \<and> (\<forall>k. k \<noteq> cacheKey secret \<longrightarrow> entries c' k = entries c k)"
    using a [THEN conjunct1] a [THEN conjunct2] by (rule GetOrCreate_miss_err_ex)
next
  assume a: "CHR '':'' \<notin> set (UID s1) \<and> CHR '':'' \<notin> set (UID s2)
        \<and> (UID s1 \<noteq> UID s2 \<or> ResourceVersion s1 \<noteq> ResourceVersion s2)"
  show "cacheKey s1 \<noteq> cacheKey s2"
    using a cacheKey_inject [of s1 s2] by blast
next
  assume a: "length (UID s1) = length (UID s2)
        \<and> (UID s1 \<noteq> UID s2 \<or> ResourceVersion s1 \<noteq> ResourceVersion s2)"
  show "cacheKey s1 \<noteq> cacheKey s2"
    using a cacheKey_inject_len [of s1 s2] by blast
next
  show "holdsClients (NewCredentialCache t :: 'a CredentialCache)"
    by (rule holdsClients_New)
next
  assume "holdsClients c"
  then show "cacheHit c secret tGet
          = (\<exists>e. entries c (cacheKey secret) = Some e \<and> \<not> tGet > expiresAt e)"
    by (rule cacheHit_holdsClients)
next
  assume a: "holdsClients c \<and> createFn b = ((cl', err'), b1) \<and> (cl' \<noteq> None \<or> err' \<noteq> None)"
  show "holdsClients (fst (snd (GetOrCreate c secret createFn tGet tSet b)))"
    using a [THEN conjunct1] a [THEN conjunct2, THEN conjunct1] a [THEN conjunct2, THEN conjunct2]
    by (rule holdsClients_GetOrCreate)
next
  assume a: "holdsClients c \<and> \<not> cacheHit c secret tGet \<and> createFn b = ((cl', Some err), b1)"
  show "entries (fst (snd (GetOrCreate c secret createFn tGet tSet b))) (cacheKey secret) = None"
    using a [THEN conjunct1] a [THEN conjunct2, THEN conjunct1] a [THEN conjunct2, THEN conjunct2]
    by (rule GetOrCreate_miss_err_none)
qed

text \<open>
  C7, as stated, fails when \<open>createFn\<close> returns an error. No entry exists under the key
  of \<open>secret1\<close> in a new cache, so \<open>createFn\<close> is invoked (its counter goes from 0 to 1);
  it returns the error \<open>invalid token\<close>, which \<open>GetOrCreate\<close> returns with no client, and
  no entry is stored under the key.
\<close>

theorem GetOrCreate_build_error:
  "entries (NewCredentialCache 0 :: nat CredentialCache) (cacheKey secret1) = None
   \<and> fst (GetOrCreate (NewCredentialCache 0 :: nat CredentialCache) secret1 failingBuild 5 6 0)
       = (None, Some ''invalid token'')
   \<and> snd (snd (GetOrCreate (NewCredentialCache 0 :: nat CredentialCache) secret1 failingBuild 5 6 0)) = 1
   \<and> entries (fst (snd (GetOrCreate (NewCredentialCache 0 :: nat CredentialCache) secret1 failingBuild 5 6 0)))
         (cacheKey secret1) = None"
  by (simp add: GetOrCreate_def Get_def NewCredentialCache_def failingBuild_def)

text \<open>
  The condition on the UIDs cannot be dropped: with a colon in a UID, two secrets that
  differ in both fields can have the same key.
\<close>

lemma cacheKey_collision:
  "UID secretA \<noteq> UID secretB \<and> ResourceVersion secretA \<noteq> ResourceVersion secretB
   \<and> cacheKey secretA = cacheKey secretB"
  by (simp add: secretA_def secretB_def cacheKey_def)

theorem GetOrCreate_cached_or_built_witness:
  "\<not> cacheHit (NewCredentialCache 0 :: nat CredentialCache) secret1 5
   \<and> fst (GetOrCreate (NewCredentialCache 0) secret1 countingBuild 5 6 0) = (Some 100, None)
   \<and> snd (snd (GetOrCreate (NewCredentialCache 0) secret1 countingBuild 5 6 0)) = 1
   \<and> entries (fst (snd (GetOrCreate (NewCredentialCache 0) secret1 countingBuild 5 6 0)))
         (cacheKey secret1) = Some \<lparr>client = Some 100, expiresAt = 30000000006\<rparr>
   \<and> holdsClients (fst (snd (GetOrCreate (NewCredentialCache 0) secret1 countingBuild 5 6 0)))
   \<and> cacheHit (Set (NewCredentialCache 0) secret1 (Some (100::nat)) 6) secret1 30000000006
   \<and> GetOrCreate (Set (NewCredentialCache 0) secret1 (Some 100) 6) secret1 countingBuild
         30000000006 30000000007 1
       = ((Some 100, None), Set (NewCredentialCache 0) secret1 (Some 100) 6, 1)
   \<and> \<not> cacheHit (Set (NewCredentialCache 0) secret1 (Some (100::nat)) 6) secret1 30000000007
   \<and> fst (GetOrCreate (NewCredentialCache 0 :: nat CredentialCache) secret1 failingBuild 5 6 0)
       = (None, Some ''invalid token'')
   \<and> entries (fst (snd (GetOrCreate (NewCredentialCache 0 :: nat CredentialCache) secret1 failingBuild 5 6 0)))
         (cacheKey secret1) = None
   \<and> CHR '':'' \<notin> set (UID secret1) \<and> CHR '':'' \<notin> set (UID secret2)
   \<and> length (UID secret1) = length (UID secret2)
   \<and> ResourceVersion secret1 \<noteq> ResourceVersion secret2
   \<and> cacheKey secret1 \<noteq> cacheKey secret2"
proof -
  let ?c0 = "NewCredentialCache 0 :: nat CredentialCache"
  let ?c1 = "Set ?c0 secret1 (Some (100::nat)) 6"
  have miss: "\<not> cacheHit ?c0 secret1 5"
    by (simp add: cacheHit_def NewCredentialCache_def)
  have b0: "countingBuild 0 = ((Some 100, None), 1)"
    by (simp add: countingBuild_def)
  have f0: "failingBuild 0 = ((None, Some ''invalid token''), 1)"
    by (simp add: failingBuild_def)
  have e1: "entries ?c1 (cacheKey secret1) = Some \<lparr>client = Some 100, expiresAt = 30000000006\<rparr>"
    by (simp add: Set_def NewCredentialCache_def DefaultCacheTTL_def)
  have k: "CHR '':'' \<notin> set (UID secret1) \<and> CHR '':'' \<notin> set (UID secret2)
      \<and> ResourceVersion secret1 \<noteq> ResourceVersion secret2"
    by (simp add: secret1_def secret2_def)
  have len: "length (UID secret1) = length (UID secret2)"
    by (simp add: secret1_def secret2_def)
  note t1 = GetOrCreate_cached_or_built [where c = ?c0 and secret = secret1 and tGet = 5
      and createFn = countingBuild and tSet = 6 and b = 0 and cl' = "Some 100" and ?b1.0 = 1
      and err = "[]" and err' = None and ?s1.0 = secret1 and ?s2.0 = secret2 and t = 0]
  note t2 = GetOrCreate_cached_or_built [where c = ?c1 and secret = secret1 and tGet = 30000000006
      and createFn = countingBuild and tSet = 30000000007 and b = 1 and cl' = None and ?b1.0 = 0
      and err = "[]" and err' = None and ?s1.0 = secret1 and ?s2.0 = secret2 and t = 0]
  note t3 = GetOrCreate_cached_or_built [where c = ?c0 and secret = secret1 and tGet = 5
      and createFn = failingBuild and tSet = 6 and b = 0 and cl' = None and ?b1.0 = 1
      and err = "''invalid token''" and err' = "Some ''invalid token''"
      and ?s1.0 = secret1 and ?s2.0 = secret2 and t = 0]
  note t4 = GetOrCreate_cached_or_built [where c = ?c1 and secret = secret1 and tGet = 30000000007
      and createFn = countingBuild and tSet = 30000000007 and b = 1 and cl' = None and ?b1.0 = 0
      and err = "[]" and err' = None and ?s1.0 = secret1 and ?s2.0 = secret2 and t = 0]
  from t1 have h0: "holdsClients ?c0" by blast
  from t1 miss b0 obtain c' where r1: "GetOrCreate ?c0 secret1 countingBuild 5 6 0 = ((Some 100, None), c', 1)"
      and c': "entries c' = (entries ?c0)(cacheKey secret1 \<mapsto> \<lparr>client = Some 100, expiresAt = 6 + ttl ?c0\<rparr>)"
    by blast
  have r1a: "fst (GetOrCreate ?c0 secret1 countingBuild 5 6 0) = (Some 100, None)"
    and r1b: "snd (snd (GetOrCreate ?c0 secret1 countingBuild 5 6 0)) = 1"
    by (simp_all add: r1)
  have r1c: "entries (fst (snd (GetOrCreate ?c0 secret1 countingBuild 5 6 0))) (cacheKey secret1)
      = Some \<lparr>client = Some 100, expiresAt = 30000000006\<rparr>"
    by (simp add: r1 c') (simp add: NewCredentialCache_def DefaultCacheTTL_def)
  from t1 h0 b0 have r1d: "holdsClients (fst (snd (GetOrCreate ?c0 secret1 countingBuild 5 6 0)))"
    by blast
  have "fst (snd (GetOrCreate ?c0 secret1 countingBuild 5 6 0)) = ?c1"
    by (simp add: GetOrCreate_def Get_def Set_def NewCredentialCache_def countingBuild_def)
  with r1d have h1: "holdsClients ?c1" by simp
  have ex: "\<exists>e. entries ?c1 (cacheKey secret1) = Some e \<and> \<not> 30000000006 > expiresAt e"
    by (simp add: e1)
  with t2 h1 have hit: "cacheHit ?c1 secret1 30000000006" by blast
  from t2 hit obtain e cl where e: "entries ?c1 (cacheKey secret1) = Some e" "client e = Some cl"
      and r2': "GetOrCreate ?c1 secret1 countingBuild 30000000006 30000000007 1 = ((Some cl, None), ?c1, 1)"
    by blast
  from e e1 have "cl = 100" by auto
  with r2' have r2: "GetOrCreate ?c1 secret1 countingBuild 30000000006 30000000007 1
      = ((Some 100, None), ?c1, 1)"
    by simp
  have nex: "\<not> (\<exists>e. entries ?c1 (cacheKey secret1) = Some e \<and> \<not> 30000000007 > expiresAt e)"
    by (simp add: e1)
  with t4 h1 have expired: "\<not> cacheHit ?c1 secret1 30000000007" by blast
  from t3 miss f0 obtain c'' where "GetOrCreate ?c0 secret1 failingBuild 5 6 0 = ((None, Some ''invalid token''), c'', 1)"
    by blast
  then have r3: "fst (GetOrCreate ?c0 secret1 failingBuild 5 6 0) = (None, Some ''invalid token'')"
    by simp
  from t3 h0 miss f0
  have r3b: "entries (fst (snd (GetOrCreate ?c0 secret1 failingBuild 5 6 0))) (cacheKey secret1) = None"
    by blast
  have r4: "cacheKey secret1 \<noteq> cacheKey secret2"
    using t1 k by blast
  from miss r1a r1b r1c r1d hit r2 expired r3 r3b k len r4 show ?thesis by blast
qed


section \<open>Runs of the DNS reconciler on concrete zones\<close>

lemma zone_app: "ExtractZoneFromHostname ''app.example.com'' = ''example.com''"
  by (simp add: ExtractZoneFromHostname_def)

lemma zone_other: "ExtractZoneFromHostname ''www.other.org'' = ''other.org''"
  by (simp add: ExtractZoneFromHostname_def)

lemma example_client: "getCloudflareClient example_reconciler example_tunnel s = (Inr memClient, s)"
  by (simp add: getCloudflareClient_def example_reconciler_def)

lemma example_desired:
  "BuildCNAMERecord ''app.example.com'' (tun_Status_TunnelDomain example_tunnel)
     (rd_Proxied (Defaults (Spec example_sync))) (''managed by cfgate, tunnel='' @ tun_Name example_tunnel)
   = desired_cname"
  by (simp add: BuildCNAMERecord_def example_tunnel_def example_sync_def desired_cname_def)

lemma mem_list:
  "callList memClient z s = (Inr (world s z), s\<lparr>calls := calls s @ [ListCall z (Inr (world s z))]\<rparr>)"
  by (simp add: callList_def memClient_def)

lemma mem_create:
  "callCreate memClient z d s
   = (Inr (d\<lparr>ID := ''new-'' @ Name d\<rparr>),
      s\<lparr>world := (world s)(z := world s z @ [d\<lparr>ID := ''new-'' @ Name d\<rparr>]),
        calls := calls s @ [CreateCall z d]\<rparr>)"
  by (simp add: callCreate_def memClient_def)


lemma mem_delete:
  "callDelete memClient z i s
   = (None, s\<lparr>world := (world s)(z := filter (\<lambda>x. ID x \<noteq> i) (world s z)),
              calls := calls s @ [DeleteCall z i]\<rparr>)"
  by (simp add: callDelete_def memClient_def)

lemma SyncRecord_empty:
  "SyncRecord memClient ''z1'' desired_cname (state_of [])
   = (Inr (desired_cname\<lparr>ID := ''new-app.example.com''\<rparr>, True),
      \<lparr>world = (\<lambda>zoneID. if zoneID = ''z1'' then [desired_cname\<lparr>ID := ''new-app.example.com''\<rparr>] else []),
       calls = [ListCall ''z1'' (Inr []), CreateCall ''z1'' desired_cname], cache = None\<rparr>)"
  by (simp add: SyncRecord_def FindRecordByName_def mem_list mem_create state_of_def
      desired_cname_def fun_eq_iff)

lemma SyncRecord_foreign:
  "SyncRecord memClient ''z1'' desired_cname (state_of [foreign_cname])
   = (Inr (foreign_cname, False),
      (state_of [foreign_cname])\<lparr>calls := [ListCall ''z1'' (Inr [foreign_cname])]\<rparr>)"
  by (simp add: SyncRecord_def FindRecordByName_def mem_list state_of_def
      desired_cname_def foreign_cname_def IsOwnedByCfgate_def)


lemma example_sync_fields:
  "txt_Enabled (TXTRecord (Ownership (Spec example_sync))) = False"
  "txt_Prefix (TXTRecord (Ownership (Spec example_sync))) = []"
  "Records (Status example_sync) = []"
  "OnlyManaged (spec_CleanupPolicy (Spec example_sync)) = False"
  "DeleteOnResourceRemoval (spec_CleanupPolicy (Spec example_sync)) = True"
  "FallbackCredentialsRef (Spec example_sync) = None"
  "Zones (Spec example_sync) = [\<lparr>zc_Name = ''example.com'', zc_ID = ''z1''\<rparr>]"
  "sync_Finalizers example_sync = [''cfgate.io/dns-cleanup'']"
  "sync_Namespace example_sync = ''ns''"
  "spec_TunnelRef (Spec example_sync) = \<lparr>tr_Name = ''t1'', tr_Namespace = []\<rparr>"
  by (simp_all add: example_sync_def)

lemma syncHostname_app:
  "syncHostname memClient example_sync example_tunnel example_zones pfx ''app.example.com'' acc s
   = (case SyncRecord memClient ''z1'' desired_cname s of
        (Inl err, s1) \<Rightarrow>
          (acc\<lparr>recordStatuses := recordStatuses acc @ [failedStatus ''app.example.com'' err],
               failedCount := failedCount acc + 1\<rparr>, s1)
      | (Inr (record, modified), s1) \<Rightarrow>
          (acc\<lparr>recordStatuses := recordStatuses acc
                 @ [\<lparr>rs_Hostname = ''app.example.com'', rs_Type = Type record,
                     rs_Target = Content record, rs_Proxied = Proxied record,
                     rs_Status = ''Synced'', rs_RecordID = ID record, rs_Error = []\<rparr>],
               syncedCount := syncedCount acc + 1\<rparr>, s1))"
  unfolding syncHostname_def Let_def example_desired zone_app
  by (simp add: example_zones_def example_sync_fields split: prod.splits sum.splits)

lemma syncHostname_other:
  "syncHostname c sync tunnel example_zones pfx ''www.other.org'' acc s
   = (acc\<lparr>recordStatuses := recordStatuses acc
               @ [failedStatus ''www.other.org'' ''zone other.org not configured''],
          failedCount := failedCount acc + 1\<rparr>, s)"
  unfolding syncHostname_def Let_def zone_other
  by (simp add: example_zones_def)

lemma syncRecords_empty:
  "syncRecords example_reconciler example_sync example_tunnel [''app.example.com''] example_zones
     (state_of [])
   = (None,
      example_sync\<lparr>Status := (Status example_sync)
        \<lparr>Records := [\<lparr>rs_Hostname = ''app.example.com'', rs_Type = ''CNAME'',
                      rs_Target = ''abc.cfargotunnel.com'', rs_Proxied = True,
                      rs_Status = ''Synced'', rs_RecordID = ''new-app.example.com'',
                      rs_Error = []\<rparr>],
         SyncedRecords := 1, PendingRecords := 0, FailedRecords := 0\<rparr>\<rparr>,
      \<lparr>world = (\<lambda>zoneID. if zoneID = ''z1'' then [desired_cname\<lparr>ID := ''new-app.example.com''\<rparr>] else []),
       calls = [ListCall ''z1'' (Inr []), CreateCall ''z1'' desired_cname], cache = None\<rparr>)"
  by (simp add: syncRecords_def example_client Let_def syncHostname_app
      SyncRecord_empty example_sync_fields)
    (simp add: desired_cname_def)

lemma syncRecords_two:
  "syncRecords example_reconciler example_sync example_tunnel [''app.example.com'', ''www.other.org'']
     example_zones (state_of [])
   = (None,
      example_sync\<lparr>Status := (Status example_sync)
        \<lparr>Records := [\<lparr>rs_Hostname = ''app.example.com'', rs_Type = ''CNAME'',
                      rs_Target = ''abc.cfargotunnel.com'', rs_Proxied = True,
                      rs_Status = ''Synced'', rs_RecordID = ''new-app.example.com'',
                      rs_Error = []\<rparr>,
                     \<lparr>rs_Hostname = ''www.other.org'', rs_Type = ''CNAME'',
                      rs_Target = [], rs_Proxied = False,
                      rs_Status = ''Failed'', rs_RecordID = [],
                      rs_Error = ''zone other.org not configured''\<rparr>],
         SyncedRecords := 1, PendingRecords := 0, FailedRecords := 1\<rparr>\<rparr>,
      \<lparr>world = (\<lambda>zoneID. if zoneID = ''z1'' then [desired_cname\<lparr>ID := ''new-app.example.com''\<rparr>] else []),
       calls = [ListCall ''z1'' (Inr []), CreateCall ''z1'' desired_cname], cache = None\<rparr>)"
  by (simp add: syncRecords_def example_client Let_def syncHostname_app syncHostname_other
      SyncRecord_empty example_sync_fields failedStatus_def)
    (simp add: desired_cname_def)


lemma orphaned_resolveTunnel:
  "resolveTunnel orphaned_reconciler example_sync = Inl ''failed to get tunnel ns/t1: not found''"
  by (simp add: resolveTunnel_def orphaned_reconciler_def example_reconciler_def example_sync_fields)


lemma reconcileDelete_orphaned:
  "reconcileDelete orphaned_reconciler example_sync (state_of [])
   = ((\<lparr>Requeue = False, RequeueAfter = 0\<rparr>, None),
      example_sync\<lparr>sync_Finalizers := []\<rparr>, state_of [])"
  by (simp add: reconcileDelete_def ContainsFinalizer_def RemoveFinalizer_def dnsSyncFinalizer_def
      example_sync_fields cleanupRecordsWithFallback_def getCloudflareClientWithFallback_def
      orphaned_resolveTunnel)
    (simp add: orphaned_reconciler_def example_reconciler_def)

lemma zone_old: "ExtractZoneFromHostname ''old.example.com'' = ''example.com''"
  by (simp add: ExtractZoneFromHostname_def)

lemma zones_example: "example_zones ''example.com'' = Some ''z1''"
  by (simp add: example_zones_def)




lemma mem_find:
  "FindRecordByName memClient z n t s
   = (Inr (foundByName n t (world s z)), s\<lparr>calls := calls s @ [ListCall z (Inr (world s z))]\<rparr>)"
  by (simp add: FindRecordByName_def mem_list foundByName_def)


lemma state_of_fields:
  "world (state_of records) z = (if z = ''z1'' then records else [])"
  "calls (state_of records) = []"
  by (simp_all add: state_of_def)







lemma slip_sync_fields:
  "Spec slip_sync = Spec example_sync"
  "Records (Status slip_sync)
     = [\<lparr>rs_Hostname = ''old.example.com'', rs_Type = ''CNAME'',
         rs_Target = ''origin.corp'', rs_Proxied = False,
         rs_Status = ''Synced'', rs_RecordID = ''r1'', rs_Error = []\<rparr>]"
  by (simp_all add: slip_sync_def)




lemma syncRecords_other_foreign:
  "syncRecords example_reconciler example_sync example_tunnel [''www.other.org'', ''app.example.com'']
     example_zones (state_of [foreign_cname])
   = (None,
      example_sync\<lparr>Status := (Status example_sync)
        \<lparr>Records := [\<lparr>rs_Hostname = ''www.other.org'', rs_Type = ''CNAME'',
                      rs_Target = [], rs_Proxied = False,
                      rs_Status = ''Failed'', rs_RecordID = [],
                      rs_Error = ''zone other.org not configured''\<rparr>,
                     \<lparr>rs_Hostname = ''app.example.com'', rs_Type = ''CNAME'',
                      rs_Target = ''origin.corp'', rs_Proxied = False,
                      rs_Status = ''Synced'', rs_RecordID = ''r1'', rs_Error = []\<rparr>],
         SyncedRecords := 1, PendingRecords := 0, FailedRecords := 1\<rparr>\<rparr>,
      (state_of [foreign_cname])\<lparr>calls := [ListCall ''z1'' (Inr [foreign_cname])]\<rparr>)"
  by (simp add: syncRecords_def example_client Let_def syncHostname_app syncHostname_other
      SyncRecord_foreign example_sync_fields failedStatus_def)
    (simp add: foreign_cname_def)


section \<open>Records that are not owned\<close>

lemma SyncRecord_unowned:
  assumes "ListDNSRecords c zoneID (world s) = (Inr records, w)"
    and "find (\<lambda>record. Name record = Name desired \<and> Type record = Type desired) records = Some existing"
    and "\<not> Contains (Comment existing) ''managed by cfgate''"
  shows "SyncRecord c zoneID desired s
    = (Inr (existing, False), s\<lparr>world := w, calls := calls s @ [ListCall zoneID (Inr records)]\<rparr>)"
  using assms
  by (simp add: SyncRecord_def FindRecordByName_def callList_def IsOwnedByCfgate_def)

lemma syncHostname_synced:
  assumes "zones (ExtractZoneFromHostname hostname) = Some zoneID"
    and "SyncRecord c zoneID (BuildCNAMERecord hostname (tun_Status_TunnelDomain tunnel)
            (rd_Proxied (Defaults (Spec sync))) (''managed by cfgate, tunnel='' @ tun_Name tunnel)) s
         = (Inr (existing, modified), s1)"
  shows "fst (syncHostname c sync tunnel zones ownershipPrefix hostname acc s)
    = acc\<lparr>recordStatuses := recordStatuses acc
            @ [\<lparr>rs_Hostname = hostname, rs_Type = Type existing, rs_Target = Content existing,
                rs_Proxied = Proxied existing, rs_Status = ''Synced'', rs_RecordID = ID existing,
                rs_Error = []\<rparr>],
          syncedCount := syncedCount acc + 1\<rparr>"
  using assms by (simp add: syncHostname_def Let_def)

lemma syncHostname_acc:
  assumes "syncHostname c sync tunnel zones ownershipPrefix hostname acc s = (acc1, s1)"
  shows "\<exists>st. recordStatuses acc1 = recordStatuses acc @ [st] \<and> rs_Hostname st = hostname
      \<and> pendingCount acc1 = pendingCount acc
      \<and> (rs_Status st = ''Synced'' \<and> syncedCount acc1 = syncedCount acc + 1
            \<and> failedCount acc1 = failedCount acc
          \<or> rs_Status st = ''Failed'' \<and> failedCount acc1 = failedCount acc + 1
            \<and> syncedCount acc1 = syncedCount acc)"
  using assms
  by (auto simp: syncHostname_def Let_def failedStatus_def split: option.splits prod.splits sum.splits)

lemma syncLoop_append:
  "syncLoop c sync tunnel zones pfx (xs @ ys) acc s
   = (case syncLoop c sync tunnel zones pfx xs acc s of
        (acc1, s1) \<Rightarrow> syncLoop c sync tunnel zones pfx ys acc1 s1)"
  by (induction xs arbitrary: acc s) (auto split: prod.splits)

lemma syncLoop_statuses:
  "\<exists>sts. recordStatuses (fst (syncLoop c sync tunnel zones pfx hs acc s)) = recordStatuses acc @ sts
      \<and> length sts = length hs"
proof (induction hs arbitrary: acc s)
  case Nil
  then show ?case by simp
next
  case (Cons h hs)
  obtain acc1 s1 where b: "syncHostname c sync tunnel zones pfx h acc s = (acc1, s1)"
    by (cases "syncHostname c sync tunnel zones pfx h acc s")
  from syncHostname_acc [OF b] obtain st where st: "recordStatuses acc1 = recordStatuses acc @ [st]"
    by blast
  from Cons.IH [of acc1 s1] obtain sts where
    "recordStatuses (fst (syncLoop c sync tunnel zones pfx hs acc1 s1)) = recordStatuses acc1 @ sts"
    "length sts = length hs"
    by blast
  with st b show ?case by simp
qed

lemma syncRecords_entry:
  assumes g: "getCloudflareClient r tunnel s0 = (Inr c, s0')"
    and l: "syncLoop c sync tunnel zones (ownershipPrefixOf sync) before
          \<lparr>recordStatuses = [], syncedCount = 0, pendingCount = 0, failedCount = 0\<rparr> s0' = (acc, s)"
    and h: "recordStatuses (fst (syncHostname c sync tunnel zones (ownershipPrefixOf sync) hostname acc s))
          = recordStatuses acc @ [st]"
  shows "fst (syncRecords r sync tunnel (before @ hostname # after) zones s0) = None
    \<and> length before < length (Records (Status (fst (snd (syncRecords r sync tunnel (before @ hostname # after) zones s0)))))
    \<and> Records (Status (fst (snd (syncRecords r sync tunnel (before @ hostname # after) zones s0)))) ! length before = st"
proof -
  let ?pfx = "ownershipPrefixOf sync"
  let ?start = "\<lparr>recordStatuses = [], syncedCount = 0, pendingCount = 0, failedCount = 0\<rparr>"
  obtain acc1 s1 where b: "syncHostname c sync tunnel zones ?pfx hostname acc s = (acc1, s1)"
    by (cases "syncHostname c sync tunnel zones ?pfx hostname acc s")
  obtain acc2 s2 where a: "syncLoop c sync tunnel zones ?pfx after acc1 s1 = (acc2, s2)"
    by (cases "syncLoop c sync tunnel zones ?pfx after acc1 s1")
  have all: "syncLoop c sync tunnel zones ?pfx (before @ hostname # after) ?start s0' = (acc2, s2)"
    by (simp add: syncLoop_append l b a)
  from syncLoop_statuses [of c sync tunnel zones ?pfx before ?start s0'] l
  have len: "length (recordStatuses acc) = length before" by auto
  from syncLoop_statuses [of c sync tunnel zones ?pfx "after" acc1 s1] a
  obtain sts where "recordStatuses acc2 = recordStatuses acc1 @ sts" by auto
  with h b have r: "recordStatuses acc2 = recordStatuses acc @ st # sts" by simp
  have res: "syncRecords r sync tunnel (before @ hostname # after) zones s0
      = (None, sync\<lparr>Status := (Status sync)
                              \<lparr>Records := recordStatuses acc2,
                               SyncedRecords := syncedCount acc2,
                               PendingRecords := pendingCount acc2,
                               FailedRecords := failedCount acc2\<rparr>\<rparr>,
         orphanLoop c sync zones ?pfx (before @ hostname # after) (Records (Status sync)) s2)"
    using g all by (simp add: syncRecords_def Let_def ownershipPrefixOf_def)
  show ?thesis
    by (simp add: res r len nth_append)
qed

text \<open>
  C2. When the listing of the zone returns a first record of the name and type of
  \<open>desired\<close> whose comment lacks the sentinel, \<open>SyncRecord\<close> returns that record with
  \<open>modified = false\<close>; the listing is its only call, so it creates and updates
  nothing. When \<open>desired\<close> is the record that \<open>syncRecords\<close> builds for a hostname of a
  configured zone, the loop body appends the status entry of that hostname with status
  \<open>Synced\<close>, the content of the existing record as target, and its identifier. So
  \<open>syncRecords\<close>, run on a list of hostnames that starts with that hostname from a
  state in which the listing answers so, returns no error and writes a status whose
  first entry is that one. More generally, when \<open>s\<close> is the state in which
  \<open>syncRecords\<close> reaches the hostname, after the hostnames \<open>before\<close> it, the status it
  writes holds that entry at the position of the hostname, whatever hostnames come
  \<open>after\<close>.
\<close>

theorem SyncRecord_leaves_unowned:
  assumes "ListDNSRecords c zoneID (world s) = (Inr records, w)"
    and "find (\<lambda>record. Name record = Name desired \<and> Type record = Type desired) records = Some existing"
    and "\<not> Contains (Comment existing) ''managed by cfgate''"
  shows "SyncRecord c zoneID desired s
      = (Inr (existing, False), s\<lparr>world := w, calls := calls s @ [ListCall zoneID (Inr records)]\<rparr>)
    \<and> (zones (ExtractZoneFromHostname hostname) = Some zoneID
        \<and> desired = BuildCNAMERecord hostname (tun_Status_TunnelDomain tunnel)
            (rd_Proxied (Defaults (Spec sync))) (''managed by cfgate, tunnel='' @ tun_Name tunnel)
       \<longrightarrow> recordStatuses (fst (syncHostname c sync tunnel zones ownershipPrefix hostname acc s))
           = recordStatuses acc
             @ [\<lparr>rs_Hostname = hostname, rs_Type = Type existing, rs_Target = Content existing,
                 rs_Proxied = Proxied existing, rs_Status = ''Synced'', rs_RecordID = ID existing,
                 rs_Error = []\<rparr>])
    \<and> (zones (ExtractZoneFromHostname hostname) = Some zoneID
        \<and> desired = BuildCNAMERecord hostname (tun_Status_TunnelDomain tunnel)
            (rd_Proxied (Defaults (Spec sync))) (''managed by cfgate, tunnel='' @ tun_Name tunnel)
        \<and> getCloudflareClient r tunnel s0 = (Inr c, s)
       \<longrightarrow> fst (syncRecords r sync tunnel (hostname # after) zones s0) = None
         \<and> Records (Status (fst (snd (syncRecords r sync tunnel (hostname # after) zones s0)))) \<noteq> []
         \<and> hd (Records (Status (fst (snd (syncRecords r sync tunnel (hostname # after) zones s0)))))
           = \<lparr>rs_Hostname = hostname, rs_Type = Type existing, rs_Target = Content existing,
              rs_Proxied = Proxied existing, rs_Status = ''Synced'', rs_RecordID = ID existing,
              rs_Error = []\<rparr>)
    \<and> (zones (ExtractZoneFromHostname hostname) = Some zoneID
        \<and> desired = BuildCNAMERecord hostname (tun_Status_TunnelDomain tunnel)
            (rd_Proxied (Defaults (Spec sync))) (''managed by cfgate, tunnel='' @ tun_Name tunnel)
        \<and> getCloudflareClient r tunnel s0 = (Inr c, s0')
        \<and> syncLoop c sync tunnel zones (ownershipPrefixOf sync) before
             \<lparr>recordStatuses = [], syncedCount = 0, pendingCount = 0, failedCount = 0\<rparr> s0' = (acc, s)
       \<longrightarrow> fst (syncRecords r sync tunnel (before @ hostname # after) zones s0) = None
         \<and> length before
             < length (Records (Status (fst (snd (syncRecords r sync tunnel (before @ hostname # after) zones s0)))))
         \<and> Records (Status (fst (snd (syncRecords r sync tunnel (before @ hostname # after) zones s0))))
               ! length before
           = \<lparr>rs_Hostname = hostname, rs_Type = Type existing, rs_Target = Content existing,
              rs_Proxied = Proxied existing, rs_Status = ''Synced'', rs_RecordID = ID existing,
              rs_Error = []\<rparr>)"
proof -
  have sr: "SyncRecord c zoneID desired s
      = (Inr (existing, False), s\<lparr>world := w, calls := calls s @ [ListCall zoneID (Inr records)]\<rparr>)"
    using assms by (rule SyncRecord_unowned)
  have sh: "recordStatuses (fst (syncHostname c sync tunnel zones pfx hostname acc s))
           = recordStatuses acc
             @ [\<lparr>rs_Hostname = hostname, rs_Type = Type existing, rs_Target = Content existing,
                 rs_Proxied = Proxied existing, rs_Status = ''Synced'', rs_RecordID = ID existing,
                 rs_Error = []\<rparr>]"
    if "zones (ExtractZoneFromHostname hostname) = Some zoneID"
      and "desired = BuildCNAMERecord hostname (tun_Status_TunnelDomain tunnel)
            (rd_Proxied (Defaults (Spec sync))) (''managed by cfgate, tunnel='' @ tun_Name tunnel)"
    for pfx acc
  proof -
    from sr that(2)
    have "SyncRecord c zoneID (BuildCNAMERecord hostname (tun_Status_TunnelDomain tunnel)
            (rd_Proxied (Defaults (Spec sync))) (''managed by cfgate, tunnel='' @ tun_Name tunnel)) s
      = (Inr (existing, False), s\<lparr>world := w, calls := calls s @ [ListCall zoneID (Inr records)]\<rparr>)"
      by simp
    from syncHostname_synced [where zones = zones and hostname = hostname and zoneID = zoneID
      and c = c and tunnel = tunnel and sync = sync and s = s and acc = acc
      and ownershipPrefix = pfx, OF that(1) this]
    show ?thesis by simp
  qed
  show ?thesis
  proof (intro conjI impI)
    show "SyncRecord c zoneID desired s
      = (Inr (existing, False), s\<lparr>world := w, calls := calls s @ [ListCall zoneID (Inr records)]\<rparr>)"
      by (rule sr)
  next
    assume a: "zones (ExtractZoneFromHostname hostname) = Some zoneID
        \<and> desired = BuildCNAMERecord hostname (tun_Status_TunnelDomain tunnel)
            (rd_Proxied (Defaults (Spec sync))) (''managed by cfgate, tunnel='' @ tun_Name tunnel)"
    then show "recordStatuses (fst (syncHostname c sync tunnel zones ownershipPrefix hostname acc s))
           = recordStatuses acc
             @ [\<lparr>rs_Hostname = hostname, rs_Type = Type existing, rs_Target = Content existing,
                 rs_Proxied = Proxied existing, rs_Status = ''Synced'', rs_RecordID = ID existing,
                 rs_Error = []\<rparr>]"
      using sh by blast
  next
    assume a: "zones (ExtractZoneFromHostname hostname) = Some zoneID
        \<and> desired = BuildCNAMERecord hostname (tun_Status_TunnelDomain tunnel)
            (rd_Proxied (Defaults (Spec sync))) (''managed by cfgate, tunnel='' @ tun_Name tunnel)
        \<and> getCloudflareClient r tunnel s0 = (Inr c, s)"
    let ?start = "\<lparr>recordStatuses = [], syncedCount = 0, pendingCount = 0, failedCount = 0\<rparr>"
    from a have g: "getCloudflareClient r tunnel s0 = (Inr c, s)" by simp
    have l: "syncLoop c sync tunnel zones (ownershipPrefixOf sync) [] ?start s = (?start, s)"
      by simp
    from a have h: "recordStatuses (fst (syncHostname c sync tunnel zones (ownershipPrefixOf sync)
             hostname ?start s))
           = recordStatuses ?start
             @ [\<lparr>rs_Hostname = hostname, rs_Type = Type existing, rs_Target = Content existing,
                 rs_Proxied = Proxied existing, rs_Status = ''Synced'', rs_RecordID = ID existing,
                 rs_Error = []\<rparr>]"
      using sh by blast
    note e = syncRecords_entry [OF g l h, of "after"]
    from e show "fst (syncRecords r sync tunnel (hostname # after) zones s0) = None" by simp
    from e show "Records (Status (fst (snd (syncRecords r sync tunnel (hostname # after) zones s0)))) \<noteq> []"
      by auto
    from e show "hd (Records (Status (fst (snd (syncRecords r sync tunnel (hostname # after) zones s0)))))
           = \<lparr>rs_Hostname = hostname, rs_Type = Type existing, rs_Target = Content existing,
              rs_Proxied = Proxied existing, rs_Status = ''Synced'', rs_RecordID = ID existing,
              rs_Error = []\<rparr>"
      by (auto simp: hd_conv_nth)
  next
    assume a: "zones (ExtractZoneFromHostname hostname) = Some zoneID
        \<and> desired = BuildCNAMERecord hostname (tun_Status_TunnelDomain tunnel)
            (rd_Proxied (Defaults (Spec sync))) (''managed by cfgate, tunnel='' @ tun_Name tunnel)
        \<and> getCloudflareClient r tunnel s0 = (Inr c, s0')
        \<and> syncLoop c sync tunnel zones (ownershipPrefixOf sync) before
             \<lparr>recordStatuses = [], syncedCount = 0, pendingCount = 0, failedCount = 0\<rparr> s0' = (acc, s)"
    then have g: "getCloudflareClient r tunnel s0 = (Inr c, s0')"
      and l: "syncLoop c sync tunnel zones (ownershipPrefixOf sync) before
             \<lparr>recordStatuses = [], syncedCount = 0, pendingCount = 0, failedCount = 0\<rparr> s0' = (acc, s)"
      by simp_all
    from a have h: "recordStatuses (fst (syncHostname c sync tunnel zones (ownershipPrefixOf sync) hostname acc s))
           = recordStatuses acc
             @ [\<lparr>rs_Hostname = hostname, rs_Type = Type existing, rs_Target = Content existing,
                 rs_Proxied = Proxied existing, rs_Status = ''Synced'', rs_RecordID = ID existing,
                 rs_Error = []\<rparr>]"
      using sh by blast
    note e = syncRecords_entry [OF g l h, of "after"]
    from e show "fst (syncRecords r sync tunnel (before @ hostname # after) zones s0) = None" by blast
    from e show "length before
             < length (Records (Status (fst (snd (syncRecords r sync tunnel (before @ hostname # after) zones s0)))))"
      by blast
    from e show "Records (Status (fst (snd (syncRecords r sync tunnel (before @ hostname # after) zones s0))))
               ! length before
           = \<lparr>rs_Hostname = hostname, rs_Type = Type existing, rs_Target = Content existing,
              rs_Proxied = Proxied existing, rs_Status = ''Synced'', rs_RecordID = ID existing,
              rs_Error = []\<rparr>"
      by blast
  qed
qed

theorem SyncRecord_leaves_unowned_witness:
  "\<not> Contains (Comment foreign_cname) ''managed by cfgate''
   \<and> SyncRecord memClient ''z1'' desired_cname (state_of [foreign_cname])
       = (Inr (foreign_cname, False),
          (state_of [foreign_cname])\<lparr>calls := [ListCall ''z1'' (Inr [foreign_cname])]\<rparr>)
   \<and> recordStatuses (fst (syncHostname memClient example_sync example_tunnel example_zones ''_cfgate''
         ''app.example.com''
         \<lparr>recordStatuses = [], syncedCount = 0, pendingCount = 0, failedCount = 0\<rparr>
         (state_of [foreign_cname])))
       = [\<lparr>rs_Hostname = ''app.example.com'', rs_Type = ''CNAME'', rs_Target = ''origin.corp'',
           rs_Proxied = False, rs_Status = ''Synced'', rs_RecordID = ''r1'', rs_Error = []\<rparr>]
   \<and> fst (syncRecords example_reconciler example_sync example_tunnel
            [''app.example.com''] example_zones (state_of [foreign_cname])) = None
   \<and> hd (Records (Status (fst (snd (syncRecords example_reconciler example_sync example_tunnel
            [''app.example.com''] example_zones (state_of [foreign_cname]))))))
       = \<lparr>rs_Hostname = ''app.example.com'', rs_Type = ''CNAME'', rs_Target = ''origin.corp'',
          rs_Proxied = False, rs_Status = ''Synced'', rs_RecordID = ''r1'', rs_Error = []\<rparr>
   \<and> fst (syncRecords example_reconciler example_sync example_tunnel
            [''www.other.org'', ''app.example.com''] example_zones (state_of [foreign_cname])) = None
   \<and> Records (Status (fst (snd (syncRecords example_reconciler example_sync example_tunnel
            [''www.other.org'', ''app.example.com''] example_zones (state_of [foreign_cname]))))) ! 1
       = \<lparr>rs_Hostname = ''app.example.com'', rs_Type = ''CNAME'', rs_Target = ''origin.corp'',
          rs_Proxied = False, rs_Status = ''Synced'', rs_RecordID = ''r1'', rs_Error = []\<rparr>
   \<and> world (snd (snd (syncRecords example_reconciler example_sync example_tunnel
            [''www.other.org'', ''app.example.com''] example_zones (state_of [foreign_cname])))) ''z1''
       = [foreign_cname]"
proof -
  let ?s = "state_of [foreign_cname]"
  let ?start = "\<lparr>recordStatuses = [], syncedCount = 0, pendingCount = 0, failedCount = 0\<rparr>"
  let ?acc = "\<lparr>recordStatuses = [failedStatus ''www.other.org'' ''zone other.org not configured''],
               syncedCount = 0, pendingCount = 0, failedCount = 1\<rparr>"
  have l: "ListDNSRecords memClient ''z1'' (world ?s) = (Inr [foreign_cname], world ?s)"
    by (simp add: memClient_def state_of_def)
  have f: "find (\<lambda>record. Name record = Name desired_cname \<and> Type record = Type desired_cname)
      [foreign_cname] = Some foreign_cname"
    by (simp add: desired_cname_def foreign_cname_def)
  have u: "\<not> Contains (Comment foreign_cname) ''managed by cfgate''"
    by (simp add: foreign_cname_def)
  have z: "example_zones (ExtractZoneFromHostname ''app.example.com'') = Some ''z1''"
    by (simp add: zone_app example_zones_def)
  have g: "getCloudflareClient example_reconciler example_tunnel ?s = (Inr memClient, ?s)"
    by (rule example_client)
  have b: "syncLoop memClient example_sync example_tunnel example_zones (ownershipPrefixOf example_sync)
      [''www.other.org''] ?start ?s = (?acc, ?s)"
    by (simp add: syncHostname_other)
  note t1 = SyncRecord_leaves_unowned [OF l f u, where zones = example_zones
      and hostname = "''app.example.com''" and tunnel = example_tunnel and sync = example_sync
      and ownershipPrefix = "''_cfgate''" and acc = ?start and r = example_reconciler
      and ?s0.0 = ?s and s0' = ?s and before = "[''www.other.org'']" and after = "[]"]
  note t2 = SyncRecord_leaves_unowned [OF l f u, where zones = example_zones
      and hostname = "''app.example.com''" and tunnel = example_tunnel and sync = example_sync
      and ownershipPrefix = "''_cfgate''" and acc = ?acc and r = example_reconciler
      and ?s0.0 = ?s and s0' = ?s and before = "[''www.other.org'']" and after = "[]"]
  from t1 z example_desired [symmetric]
  have c1: "SyncRecord memClient ''z1'' desired_cname ?s
       = (Inr (foreign_cname, False), ?s\<lparr>calls := [ListCall ''z1'' (Inr [foreign_cname])]\<rparr>)"
    and c2: "recordStatuses (fst (syncHostname memClient example_sync example_tunnel example_zones ''_cfgate''
         ''app.example.com'' ?start ?s))
       = [\<lparr>rs_Hostname = ''app.example.com'', rs_Type = ''CNAME'', rs_Target = ''origin.corp'',
           rs_Proxied = False, rs_Status = ''Synced'', rs_RecordID = ''r1'', rs_Error = []\<rparr>]"
    by (simp_all add: foreign_cname_def state_of_def)
  from t1 z example_desired [symmetric] g
  have h1: "fst (syncRecords example_reconciler example_sync example_tunnel
            [''app.example.com''] example_zones ?s) = None"
    and h2: "hd (Records (Status (fst (snd (syncRecords example_reconciler example_sync example_tunnel
            [''app.example.com''] example_zones ?s)))))
       = \<lparr>rs_Hostname = ''app.example.com'', rs_Type = ''CNAME'', rs_Target = ''origin.corp'',
          rs_Proxied = False, rs_Status = ''Synced'', rs_RecordID = ''r1'', rs_Error = []\<rparr>"
    by (simp_all add: foreign_cname_def)
  from t2 z example_desired [symmetric] g b
  have c3: "fst (syncRecords example_reconciler example_sync example_tunnel
            [''www.other.org'', ''app.example.com''] example_zones ?s) = None"
    and c4: "Records (Status (fst (snd (syncRecords example_reconciler example_sync example_tunnel
            [''www.other.org'', ''app.example.com''] example_zones ?s)))) ! 1
       = \<lparr>rs_Hostname = ''app.example.com'', rs_Type = ''CNAME'', rs_Target = ''origin.corp'',
          rs_Proxied = False, rs_Status = ''Synced'', rs_RecordID = ''r1'', rs_Error = []\<rparr>"
    by (simp_all add: foreign_cname_def)
  have c5: "world (snd (snd (syncRecords example_reconciler example_sync example_tunnel
            [''www.other.org'', ''app.example.com''] example_zones ?s))) ''z1'' = [foreign_cname]"
    by (simp add: syncRecords_other_foreign) (simp add: state_of_def)
  from u c1 c2 h1 h2 c3 c4 c5 show ?thesis by blast
qed


section \<open>Status counters\<close>

lemma sint_of_nat_32: "k < 2 ^ 31 \<Longrightarrow> sint (of_nat k :: 32 word) = int k"
  by (simp add: signed_of_nat signed_take_bit_int_eq_self)

lemma filter_partition_length:
  assumes "\<forall>x \<in> set xs. P x \<or> Q x" "\<And>x. \<not> (P x \<and> Q x)"
  shows "length (filter P xs) + length (filter Q xs) = length xs"
  using assms by (induction xs) auto

lemma syncHostname_accInv:
  assumes "syncHostname c sync tunnel zones ownershipPrefix hostname acc s = (acc1, s1)" "accInv acc"
  shows "accInv acc1 \<and> map rs_Hostname (recordStatuses acc1) = map rs_Hostname (recordStatuses acc) @ [hostname]"
proof -
  from syncHostname_acc [OF assms(1)] obtain st where
    st: "recordStatuses acc1 = recordStatuses acc @ [st]" "rs_Hostname st = hostname"
      "pendingCount acc1 = pendingCount acc"
      "rs_Status st = ''Synced'' \<and> syncedCount acc1 = syncedCount acc + 1
            \<and> failedCount acc1 = failedCount acc
          \<or> rs_Status st = ''Failed'' \<and> failedCount acc1 = failedCount acc + 1
            \<and> syncedCount acc1 = syncedCount acc"
    by blast
  from st(4) show ?thesis
  proof
    assume "rs_Status st = ''Synced'' \<and> syncedCount acc1 = syncedCount acc + 1
            \<and> failedCount acc1 = failedCount acc"
    with st(1-3) assms(2) show ?thesis by (simp add: accInv_def)
  next
    assume "rs_Status st = ''Failed'' \<and> failedCount acc1 = failedCount acc + 1
            \<and> syncedCount acc1 = syncedCount acc"
    with st(1-3) assms(2) show ?thesis by (simp add: accInv_def)
  qed
qed

lemma syncLoop_accInv:
  "syncLoop c sync tunnel zones ownershipPrefix hostnames acc s = (acc1, s1) \<Longrightarrow> accInv acc
   \<Longrightarrow> accInv acc1
       \<and> map rs_Hostname (recordStatuses acc1) = map rs_Hostname (recordStatuses acc) @ hostnames"
proof (induction hostnames arbitrary: acc s)
  case Nil
  then show ?case by simp
next
  case (Cons h hs)
  obtain acc2 s2 where b: "syncHostname c sync tunnel zones ownershipPrefix h acc s = (acc2, s2)"
    by (cases "syncHostname c sync tunnel zones ownershipPrefix h acc s")
  with Cons.prems(1) have l: "syncLoop c sync tunnel zones ownershipPrefix hs acc2 s2 = (acc1, s1)"
    by simp
  from syncHostname_accInv [OF b Cons.prems(2)] have i: "accInv acc2"
    and m: "map rs_Hostname (recordStatuses acc2) = map rs_Hostname (recordStatuses acc) @ [h]"
    by simp_all
  from Cons.IH [OF l i] m show ?case by simp
qed

lemma accInv_counts:
  assumes "accInv acc"
  shows "syncedCount acc + failedCount acc = of_nat (length (recordStatuses acc))"
    and "length (recordStatuses acc) < 2 ^ 31 \<Longrightarrow>
         sint (syncedCount acc) + sint (failedCount acc) = int (length (recordStatuses acc))"
proof -
  let ?S = "length (filter (\<lambda>st. rs_Status st = ''Synced'') (recordStatuses acc))"
  let ?F = "length (filter (\<lambda>st. rs_Status st = ''Failed'') (recordStatuses acc))"
  have sum: "?S + ?F = length (recordStatuses acc)"
    using assms by (intro filter_partition_length) (auto simp: accInv_def)
  from assms have c: "syncedCount acc = of_nat ?S" "failedCount acc = of_nat ?F"
    by (simp_all add: accInv_def)
  have "syncedCount acc + failedCount acc = of_nat (?S + ?F)"
    by (simp add: c)
  with sum show "syncedCount acc + failedCount acc = of_nat (length (recordStatuses acc))"
    by simp
  assume "length (recordStatuses acc) < 2 ^ 31"
  with sum have "?S < 2 ^ 31" "?F < 2 ^ 31" by linarith+
  then have "sint (syncedCount acc) = int ?S" "sint (failedCount acc) = int ?F"
    by (simp_all add: c sint_of_nat_32)
  with sum show "sint (syncedCount acc) + sint (failedCount acc) = int (length (recordStatuses acc))"
    by linarith
qed

text \<open>
  C10. After a pass of \<open>syncRecords\<close> that returns no error, \<open>PendingRecords\<close> is 0,
  and \<open>SyncedRecords + FailedRecords\<close> is the number of desired hostnames: as 32-bit
  integers always, and as integers whenever there are fewer than \<open>2^31\<close> hostnames. The
  status has one entry per desired hostname, in order, each \<open>Synced\<close> or \<open>Failed\<close>, so
  none is \<open>Pending\<close>.
\<close>

theorem syncRecords_counts:
  assumes "syncRecords r sync tunnel hostnames zones s = (None, sync1, s1)"
  shows "PendingRecords (Status sync1) = 0
    \<and> SyncedRecords (Status sync1) + FailedRecords (Status sync1) = of_nat (length hostnames)
    \<and> (length hostnames < 2 ^ 31 \<longrightarrow>
         sint (SyncedRecords (Status sync1)) + sint (FailedRecords (Status sync1))
           = int (length hostnames))
    \<and> map rs_Hostname (Records (Status sync1)) = hostnames
    \<and> (\<forall>st \<in> set (Records (Status sync1)). rs_Status st = ''Synced'' \<or> rs_Status st = ''Failed'')"
proof -
  let ?pfx = "if txt_Prefix (TXTRecord (Ownership (Spec sync))) = [] then defaultOwnershipPrefix
              else txt_Prefix (TXTRecord (Ownership (Spec sync)))"
  let ?start = "\<lparr>recordStatuses = [], syncedCount = 0, pendingCount = 0, failedCount = 0\<rparr>"
  from assms obtain cfClient s0 where g: "getCloudflareClient r tunnel s = (Inr cfClient, s0)"
    by (auto simp: syncRecords_def split: prod.splits sum.splits)
  obtain acc s2 where l: "syncLoop cfClient sync tunnel zones ?pfx hostnames ?start s0 = (acc, s2)"
    by (cases "syncLoop cfClient sync tunnel zones ?pfx hostnames ?start s0")
  from assms g l have st: "Status sync1 = (Status sync)
        \<lparr>Records := recordStatuses acc, SyncedRecords := syncedCount acc,
         PendingRecords := pendingCount acc, FailedRecords := failedCount acc\<rparr>"
    by (auto simp: syncRecords_def Let_def)
  have "accInv ?start" by (simp add: accInv_def)
  from syncLoop_accInv [OF l this] have i: "accInv acc"
    and m: "map rs_Hostname (recordStatuses acc) = hostnames"
    by simp_all
  from m have len: "length (recordStatuses acc) = length hostnames"
    by (metis length_map)
  from i have p: "pendingCount acc = 0"
    and a: "\<forall>st \<in> set (recordStatuses acc). rs_Status st = ''Synced'' \<or> rs_Status st = ''Failed''"
    by (simp_all add: accInv_def)
  from accInv_counts [OF i] len have
    c1: "syncedCount acc + failedCount acc = of_nat (length hostnames)"
    and c2: "length hostnames < 2 ^ 31 \<longrightarrow>
        sint (syncedCount acc) + sint (failedCount acc) = int (length hostnames)"
    by simp_all
  from p c1 c2 m a show ?thesis by (simp add: st)
qed

theorem syncRecords_counts_witness:
  "fst (syncRecords example_reconciler example_sync example_tunnel
          [''app.example.com'', ''www.other.org''] example_zones (state_of [])) = None
   \<and> PendingRecords (Status (fst (snd (syncRecords example_reconciler example_sync example_tunnel
          [''app.example.com'', ''www.other.org''] example_zones (state_of []))))) = 0
   \<and> SyncedRecords (Status (fst (snd (syncRecords example_reconciler example_sync example_tunnel
          [''app.example.com'', ''www.other.org''] example_zones (state_of []))))) = 1
   \<and> FailedRecords (Status (fst (snd (syncRecords example_reconciler example_sync example_tunnel
          [''app.example.com'', ''www.other.org''] example_zones (state_of []))))) = 1
   \<and> sint (SyncedRecords (Status (fst (snd (syncRecords example_reconciler example_sync example_tunnel
          [''app.example.com'', ''www.other.org''] example_zones (state_of []))))))
     + sint (FailedRecords (Status (fst (snd (syncRecords example_reconciler example_sync example_tunnel
          [''app.example.com'', ''www.other.org''] example_zones (state_of []))))))
     = 2
   \<and> map rs_Status (Records (Status (fst (snd (syncRecords example_reconciler example_sync
          example_tunnel [''app.example.com'', ''www.other.org''] example_zones (state_of []))))))
     = [''Synced'', ''Failed'']"
proof -
  let ?r = "syncRecords example_reconciler example_sync example_tunnel
          [''app.example.com'', ''www.other.org''] example_zones (state_of [])"
  have e: "?r = (None, fst (snd ?r), snd (snd ?r))"
    by (simp add: syncRecords_two)
  have len: "length [''app.example.com'', ''www.other.org''] < (2::nat) ^ 31"
    by simp
  from syncRecords_counts [OF e] len
  have "PendingRecords (Status (fst (snd ?r))) = 0"
    and "sint (SyncedRecords (Status (fst (snd ?r)))) + sint (FailedRecords (Status (fst (snd ?r)))) = 2"
    by simp_all
  moreover have "fst ?r = None" "SyncedRecords (Status (fst (snd ?r))) = 1"
    "FailedRecords (Status (fst (snd ?r))) = 1"
    "map rs_Status (Records (Status (fst (snd ?r)))) = [''Synced'', ''Failed'']"
    by (simp_all add: syncRecords_two)
  ultimately show ?thesis by simp
qed


section \<open>Explicit hostnames\<close>

text \<open>
  C3, a defect of the code. The resource \<open>example_sync\<close> declares the explicit hostname
  \<open>app.example.com\<close> with target \<open>origin.example.net\<close>, proxied off and TTL \<open>300\<close>.
  \<open>collectHostnames\<close> keeps the hostname only, and the record that \<open>syncRecords\<close>
  creates has the tunnel domain as content, TTL 1 and the proxied flag of the defaults.
\<close>

theorem explicit_target_ignored:
  "Explicit (Source (Spec example_sync))
     = [\<lparr>eh_Hostname = ''app.example.com'', eh_Target = ''origin.example.net'',
         eh_Proxied = False, eh_TTL = ''300''\<rparr>]
   \<and> collectHostnames example_reconciler example_sync example_tunnel = Inr [''app.example.com'']
   \<and> calls (snd (snd (syncRecords example_reconciler example_sync example_tunnel
          [''app.example.com''] example_zones (state_of []))))
     = [ListCall ''z1'' (Inr []),
        CreateCall ''z1''
          \<lparr>ID = [], Type = ''CNAME'', Name = ''app.example.com'',
           Content = ''abc.cfargotunnel.com'', TTL = 1, Proxied = True,
           Comment = ''managed by cfgate, tunnel=t1''\<rparr>]"
proof -
  have "collectHostnames example_reconciler example_sync example_tunnel = Inr [''app.example.com'']"
    by (simp add: collectHostnames_def example_sync_def)
  then show ?thesis
    by (simp add: syncRecords_empty) (simp add: example_sync_def desired_cname_def)
qed



section \<open>Deletion without fallback credentials\<close>

lemma getCloudflareClient_no_secret:
  assumes "CFClient r = None"
    and "GetSecret r (if ref_Namespace (tun_Spec_Cloudflare_SecretRef tunnel) = []
                      then tun_Namespace tunnel
                      else ref_Namespace (tun_Spec_Cloudflare_SecretRef tunnel),
                      ref_Name (tun_Spec_Cloudflare_SecretRef tunnel)) = Inl e"
  shows "getCloudflareClient r tunnel s = (Inl (''failed to get credentials secret: '' @ e), s)"
  using assms by (simp add: getCloudflareClient_def Let_def)

lemma getCloudflareClientWithFallback_none:
  assumes "FallbackCredentialsRef (Spec sync) = None"
    and "(\<exists>e. resolveTunnel r sync = Inl e)
         \<or> (\<exists>tunnel e. resolveTunnel r sync = Inr tunnel \<and> CFClient r = None
              \<and> GetSecret r (if ref_Namespace (tun_Spec_Cloudflare_SecretRef tunnel) = []
                              then tun_Namespace tunnel
                              else ref_Namespace (tun_Spec_Cloudflare_SecretRef tunnel),
                              ref_Name (tun_Spec_Cloudflare_SecretRef tunnel)) = Inl e)"
  shows "getCloudflareClientWithFallback r sync s
     = (Inl ''tunnel credentials unavailable and no fallback configured'', s)"
  using assms(2)
proof
  assume "\<exists>e. resolveTunnel r sync = Inl e"
  with assms(1) show ?thesis
    by (auto simp: getCloudflareClientWithFallback_def)
next
  assume "\<exists>tunnel e. resolveTunnel r sync = Inr tunnel \<and> CFClient r = None
              \<and> GetSecret r (if ref_Namespace (tun_Spec_Cloudflare_SecretRef tunnel) = []
                              then tun_Namespace tunnel
                              else ref_Namespace (tun_Spec_Cloudflare_SecretRef tunnel),
                              ref_Name (tun_Spec_Cloudflare_SecretRef tunnel)) = Inl e"
  then obtain tunnel e where t: "resolveTunnel r sync = Inr tunnel"
    and g: "getCloudflareClient r tunnel s = (Inl (''failed to get credentials secret: '' @ e), s)"
    using getCloudflareClient_no_secret by blast
  with assms(1) show ?thesis
    by (simp add: getCloudflareClientWithFallback_def)
qed

lemma RemoveFinalizer_removed: "\<not> ContainsFinalizer (RemoveFinalizer sync f) f"
  by (simp add: ContainsFinalizer_def RemoveFinalizer_def)

text \<open>
  C5, as amended. For a resource without fallback credentials whose tunnel cannot be
  read, or whose tunnel can be read while no client is injected and the credentials
  secret cannot, the cleanup fails with \<open>tunnel credentials unavailable and no fallback
  configured\<close> and leaves the state as it was (no call reaches the provider). The
  deletion reconciliation of a resource that has the finalizer does not fail for that:
  it removes the finalizer and, when the patch succeeds, returns the empty result and no
  error, so nothing is retried. It returns an error only when the patch fails.
\<close>

theorem reconcileDelete_without_fallback:
  assumes "FallbackCredentialsRef (Spec sync) = None"
    and "(\<exists>e. resolveTunnel r sync = Inl e)
         \<or> (\<exists>tunnel e. resolveTunnel r sync = Inr tunnel \<and> CFClient r = None
              \<and> GetSecret r (if ref_Namespace (tun_Spec_Cloudflare_SecretRef tunnel) = []
                              then tun_Namespace tunnel
                              else ref_Namespace (tun_Spec_Cloudflare_SecretRef tunnel),
                              ref_Name (tun_Spec_Cloudflare_SecretRef tunnel)) = Inl e)"
    and "ContainsFinalizer sync dnsSyncFinalizer"
  shows "cleanupRecordsWithFallback r sync s
       = (Some ''failed to get Cloudflare client: tunnel credentials unavailable and no fallback configured'', s)
     \<and> (PatchSync r (RemoveFinalizer sync dnsSyncFinalizer) = None \<longrightarrow>
          reconcileDelete r sync s
            = ((\<lparr>Requeue = False, RequeueAfter = 0\<rparr>, None),
               RemoveFinalizer sync dnsSyncFinalizer, s))
     \<and> \<not> ContainsFinalizer (RemoveFinalizer sync dnsSyncFinalizer) dnsSyncFinalizer
     \<and> (\<forall>err. PatchSync r (RemoveFinalizer sync dnsSyncFinalizer) = Some err \<longrightarrow>
          reconcileDelete r sync s
            = ((\<lparr>Requeue = False, RequeueAfter = 0\<rparr>, Some (''failed to remove finalizer: '' @ err)),
               RemoveFinalizer sync dnsSyncFinalizer, s))"
proof -
  from getCloudflareClientWithFallback_none [OF assms(1,2)]
  have c: "cleanupRecordsWithFallback r sync s
       = (Some ''failed to get Cloudflare client: tunnel credentials unavailable and no fallback configured'', s)"
    by (simp add: cleanupRecordsWithFallback_def)
  then have s1: "(if DeleteOnResourceRemoval (spec_CleanupPolicy (Spec sync))
                  then snd (cleanupRecordsWithFallback r sync s) else s) = s"
    by simp
  have ok: "PatchSync r (RemoveFinalizer sync dnsSyncFinalizer) = None \<longrightarrow>
          reconcileDelete r sync s
            = ((\<lparr>Requeue = False, RequeueAfter = 0\<rparr>, None),
               RemoveFinalizer sync dnsSyncFinalizer, s)"
    using assms(3) by (simp add: reconcileDelete_def Let_def s1)
  have err: "\<forall>err. PatchSync r (RemoveFinalizer sync dnsSyncFinalizer) = Some err \<longrightarrow>
          reconcileDelete r sync s
            = ((\<lparr>Requeue = False, RequeueAfter = 0\<rparr>, Some (''failed to remove finalizer: '' @ err)),
               RemoveFinalizer sync dnsSyncFinalizer, s)"
    using assms(3) by (simp add: reconcileDelete_def Let_def s1)
  from c ok RemoveFinalizer_removed err show ?thesis by blast
qed

theorem reconcileDelete_without_fallback_witness:
  "FallbackCredentialsRef (Spec example_sync) = None
   \<and> resolveTunnel orphaned_reconciler example_sync = Inl ''failed to get tunnel ns/t1: not found''
   \<and> ContainsFinalizer example_sync dnsSyncFinalizer
   \<and> PatchSync orphaned_reconciler (RemoveFinalizer example_sync dnsSyncFinalizer) = None
   \<and> cleanupRecordsWithFallback orphaned_reconciler example_sync (state_of [owned_stale])
       = (Some ''failed to get Cloudflare client: tunnel credentials unavailable and no fallback configured'',
          state_of [owned_stale])
   \<and> reconcileDelete orphaned_reconciler example_sync (state_of [owned_stale])
       = ((\<lparr>Requeue = False, RequeueAfter = 0\<rparr>, None),
          RemoveFinalizer example_sync dnsSyncFinalizer, state_of [owned_stale])
   \<and> sync_Finalizers (RemoveFinalizer example_sync dnsSyncFinalizer) = []"
proof -
  have f: "FallbackCredentialsRef (Spec example_sync) = None"
    by (simp add: example_sync_fields)
  have t: "(\<exists>e. resolveTunnel orphaned_reconciler example_sync = Inl e)
         \<or> (\<exists>tunnel e. resolveTunnel orphaned_reconciler example_sync = Inr tunnel
              \<and> CFClient orphaned_reconciler = None
              \<and> GetSecret orphaned_reconciler
                   (if ref_Namespace (tun_Spec_Cloudflare_SecretRef tunnel) = []
                    then tun_Namespace tunnel
                    else ref_Namespace (tun_Spec_Cloudflare_SecretRef tunnel),
                    ref_Name (tun_Spec_Cloudflare_SecretRef tunnel)) = Inl e)"
    by (simp add: orphaned_resolveTunnel)
  have c: "ContainsFinalizer example_sync dnsSyncFinalizer"
    by (simp add: ContainsFinalizer_def dnsSyncFinalizer_def example_sync_fields)
  have p: "PatchSync orphaned_reconciler (RemoveFinalizer example_sync dnsSyncFinalizer) = None"
    by (simp add: orphaned_reconciler_def example_reconciler_def)
  have r: "sync_Finalizers (RemoveFinalizer example_sync dnsSyncFinalizer) = []"
    by (simp add: RemoveFinalizer_def dnsSyncFinalizer_def example_sync_fields)
  from reconcileDelete_without_fallback [OF f t c, of "state_of [owned_stale]"] f c p r
    orphaned_resolveTunnel
  show ?thesis by simp
qed

text \<open>
  C5, as stated, fails: the tunnel of \<open>example_sync\<close> is gone from the cluster of
  \<open>orphaned_reconciler\<close> and the resource has no fallback credentials and carries the
  finalizer, yet the deletion reconciliation returns the empty result (no requeue) and no
  error, and the resource it patched has no finalizer left.
\<close>

theorem reconcileDelete_removes_finalizer:
  "FallbackCredentialsRef (Spec example_sync) = None
   \<and> GetTunnel orphaned_reconciler (''ns'', ''t1'') = Inl ''not found''
   \<and> sync_Finalizers example_sync = [dnsSyncFinalizer]
   \<and> fst (reconcileDelete orphaned_reconciler example_sync (state_of []))
       = (\<lparr>Requeue = False, RequeueAfter = 0\<rparr>, None)
   \<and> sync_Finalizers (fst (snd (reconcileDelete orphaned_reconciler example_sync (state_of [])))) = []"
  by (simp add: reconcileDelete_orphaned example_sync_fields dnsSyncFinalizer_def)
    (simp add: orphaned_reconciler_def)



section \<open>Calls that change the provider\<close>

lemma callList_calls: "calls (snd (callList c z s)) = calls s @ [ListCall z (fst (callList c z s))]"
  by (simp add: callList_def split: prod.splits)

lemma callCreate_calls: "calls (snd (callCreate c z d s)) = calls s @ [CreateCall z d]"
  by (simp add: callCreate_def split: prod.splits)

lemma callUpdate_calls: "calls (snd (callUpdate c z i d s)) = calls s @ [UpdateCall z i d]"
  by (simp add: callUpdate_def split: prod.splits)


lemma callGetZone_calls: "calls (snd (callGetZone c n s)) = calls s @ [GetZoneCall n]"
  by (simp add: callGetZone_def split: prod.splits)

lemma callList_eq: "callList c z s = (r, s') \<Longrightarrow> calls s' = calls s @ [ListCall z r]"
  by (auto simp: callList_def split: prod.splits)



lemma callDelete_eq: "callDelete c z i s = (r, s') \<Longrightarrow> calls s' = calls s @ [DeleteCall z i]"
  by (auto simp: callDelete_def split: prod.splits)




lemma lastListing_snoc [simp]:
  "lastListing (cs @ [ListCall z (Inr rs)]) = Some (z, rs)"
  "lastListing (cs @ [ListCall z (Inl e)]) = None"
  "lastListing (cs @ [CreateCall z d]) = lastListing cs"
  "lastListing (cs @ [UpdateCall z i d]) = lastListing cs"
  "lastListing (cs @ [DeleteCall z i]) = lastListing cs"
  "lastListing (cs @ [GetZoneCall n]) = lastListing cs"
  by (simp_all add: lastListing_def)



























text \<open>
  The delete call of the orphan deletion names the identifier stored in the status
  entry, which need not be the identifier of the record found. The status of
  \<open>slip_sync\<close> stores \<open>r1\<close> for \<open>old.example.com\<close>; in the zone, \<open>r1\<close> is the CNAME of
  \<open>app.example.com\<close>, which lacks the sentinel, and the CNAME of \<open>old.example.com\<close> is
  \<open>r4\<close>, which carries it. With no hostname desired, the record found for the entry is
  \<open>r4\<close>, and the call deletes \<open>r1\<close>.
\<close>

lemma orphan_deletes_stored_identifier:
  "\<not> hasSentinel foreign_cname
   \<and> calls (snd (snd (syncRecords example_reconciler slip_sync example_tunnel [] example_zones
        (state_of [foreign_cname, owned_old]))))
     = [ListCall ''z1'' (Inr [foreign_cname, owned_old]), DeleteCall ''z1'' (ID foreign_cname)]
   \<and> world (snd (snd (syncRecords example_reconciler slip_sync example_tunnel [] example_zones
        (state_of [foreign_cname, owned_old])))) ''z1''
     = [owned_old]"
  by (simp add: syncRecords_def example_client Let_def slip_sync_fields example_sync_fields
      deleteOrphan_def zone_old zones_example mem_find mem_delete DeleteRecord_def foundByName_def
      state_of_fields foreign_cname_def owned_old_def IsOwnedByCfgate_def hasSentinel_def)


section \<open>Collected hostnames\<close>

lemma firstOccurrences_set: "set (firstOccurrences xs) = set xs"
  by (induction xs rule: firstOccurrences.induct) auto

lemma firstOccurrences_distinct: "distinct (firstOccurrences xs)"
  by (induction xs rule: firstOccurrences.induct) (auto simp: firstOccurrences_set)

lemma remdups_snoc: "remdups (ys @ [x]) = remdups (filter (\<lambda>y. y \<noteq> x) ys) @ [x]"
  by (induction ys) auto

lemma firstOccurrences_remdups: "firstOccurrences xs = rev (remdups (rev xs))"
proof (induction xs rule: firstOccurrences.induct)
  case 1
  show ?case by simp
next
  case (2 x xs)
  have "remdups (rev xs @ [x]) = remdups (filter (\<lambda>y. y \<noteq> x) (rev xs)) @ [x]"
    by (rule remdups_snoc)
  then show ?case
    using 2 by (simp add: rev_filter)
qed

lemma dedupLoop_firstOccurrences:
  "dedupLoop hs seen unique = unique @ firstOccurrences (filter (\<lambda>h. \<not> seen h) hs)"
proof (induction hs arbitrary: seen unique)
  case Nil
  show ?case by simp
next
  case (Cons h hs)
  have f: "filter (\<lambda>x. \<not> (seen(h := True)) x) hs = filter (\<lambda>y. y \<noteq> h) (filter (\<lambda>x. \<not> seen x) hs)"
    by (induction hs) auto
  show ?case
  proof (cases "seen h")
    case True
    then show ?thesis by (simp add: Cons.IH)
  next
    case False
    then have "dedupLoop (h # hs) seen unique = dedupLoop hs (seen(h := True)) (unique @ [h])"
      by simp
    also have "\<dots> = (unique @ [h]) @ firstOccurrences (filter (\<lambda>x. \<not> (seen(h := True)) x) hs)"
      by (rule Cons.IH)
    also have "\<dots> = unique @ firstOccurrences (filter (\<lambda>x. \<not> seen x) (h # hs))"
      using False by (simp only: f) simp
    finally show ?thesis .
  qed
qed

lemma collectHostnames_eq:
  "collectHostnames r sync tunnel =
     (if grs_Enabled (GatewayRoutes (Source (Spec sync)))
      then (case collectHostnamesFromRoutes r sync tunnel of
              Inl err \<Rightarrow> Inl err
            | Inr routeHostnames \<Rightarrow>
                Inr (firstOccurrences (map eh_Hostname (Explicit (Source (Spec sync))) @ routeHostnames)))
      else Inr (firstOccurrences (map eh_Hostname (Explicit (Source (Spec sync))))))"
  by (simp add: collectHostnames_def Let_def dedupLoop_firstOccurrences split: sum.splits)


lemma firstOccurrences_append:
  "firstOccurrences (xs @ ys) = firstOccurrences xs @ firstOccurrences (filter (\<lambda>y. y \<notin> set xs) ys)"
proof (induction xs arbitrary: ys rule: firstOccurrences.induct)
  case 1
  show ?case by simp
next
  case (2 x xs)
  have f: "filter (\<lambda>y. y \<notin> set (filter (\<lambda>y. y \<noteq> x) xs)) (filter (\<lambda>y. y \<noteq> x) ys)
      = filter (\<lambda>y. y \<notin> set (x # xs)) ys"
    by (induction ys) auto
  have "firstOccurrences ((x # xs) @ ys)
      = x # firstOccurrences (filter (\<lambda>y. y \<noteq> x) xs @ filter (\<lambda>y. y \<noteq> x) ys)"
    by simp
  also have "\<dots> = x # (firstOccurrences (filter (\<lambda>y. y \<noteq> x) xs)
      @ firstOccurrences (filter (\<lambda>y. y \<notin> set (filter (\<lambda>y. y \<noteq> x) xs))
          (filter (\<lambda>y. y \<noteq> x) ys)))"
    by (simp only: 2 [of "filter (\<lambda>y. y \<noteq> x) ys"])
  also have "\<dots> = firstOccurrences (x # xs)
      @ firstOccurrences (filter (\<lambda>y. y \<notin> set (x # xs)) ys)"
    by (simp only: f firstOccurrences.simps append_Cons)
  finally show ?case .
qed

text \<open>
  C8. \<open>collectHostnames\<close> returns the first occurrences of the explicit hostnames, in
  the order of their declaration, followed by the hostnames derived from the gateway
  routes (when that source is enabled; an error of the listing is returned as it is).
  The list it returns has no duplicate. Keeping first occurrences is reversing, keeping
  last occurrences and reversing again; it keeps every element; and of two lists in a
  row it keeps the first occurrences of the first, then those of the second that are
  not in the first.
\<close>

theorem collectHostnames_first_occurrences:
  "collectHostnames r sync tunnel =
     (if grs_Enabled (GatewayRoutes (Source (Spec sync)))
      then (case collectHostnamesFromRoutes r sync tunnel of
              Inl err \<Rightarrow> Inl err
            | Inr routeHostnames \<Rightarrow>
                Inr (firstOccurrences (map eh_Hostname (Explicit (Source (Spec sync))) @ routeHostnames)))
      else Inr (firstOccurrences (map eh_Hostname (Explicit (Source (Spec sync))))))
   \<and> (collectHostnames r sync tunnel = Inr hs \<longrightarrow> distinct hs)
   \<and> firstOccurrences xs = rev (remdups (rev xs))
   \<and> set (firstOccurrences xs) = set xs
   \<and> firstOccurrences (xs @ ys)
       = firstOccurrences xs @ firstOccurrences (filter (\<lambda>y. y \<notin> set xs) ys)"
proof -
  have d: "collectHostnames r sync tunnel = Inr hs \<longrightarrow> distinct hs"
    by (auto simp: collectHostnames_eq firstOccurrences_distinct split: if_splits sum.splits)
  show ?thesis
    using collectHostnames_eq [of r sync tunnel] d firstOccurrences_remdups [of xs]
      firstOccurrences_set [of xs] firstOccurrences_append [of xs ys]
    by blast
qed

lemma routes_collect:
  "collectHostnamesFromRoutes routes_reconciler routes_sync example_tunnel
   = Inr [''app.example.com'', ''api.example.com'']"
  by (simp add: collectHostnamesFromRoutes_def routes_reconciler_def example_reconciler_def
      example_tunnel_def example_gateway_def Let_def hostnamesOfRoute_def routes_sync_def
      example_route_def)

theorem collectHostnames_first_occurrences_witness:
  "grs_Enabled (GatewayRoutes (Source (Spec routes_sync)))
   \<and> map eh_Hostname (Explicit (Source (Spec routes_sync)))
       = [''x.example.com'', ''app.example.com'', ''x.example.com'']
   \<and> collectHostnamesFromRoutes routes_reconciler routes_sync example_tunnel
       = Inr [''app.example.com'', ''api.example.com'']
   \<and> collectHostnames routes_reconciler routes_sync example_tunnel
       = Inr [''x.example.com'', ''app.example.com'', ''api.example.com'']
   \<and> distinct [''x.example.com'', ''app.example.com'', ''api.example.com'']"
proof -
  have e: "grs_Enabled (GatewayRoutes (Source (Spec routes_sync)))"
    and x: "map eh_Hostname (Explicit (Source (Spec routes_sync)))
       = [''x.example.com'', ''app.example.com'', ''x.example.com'']"
    by (simp_all add: routes_sync_def)
  note t = collectHostnames_first_occurrences [of routes_reconciler routes_sync example_tunnel
      "[''x.example.com'', ''app.example.com'', ''api.example.com'']" "[]" "[]"]
  from t e x routes_collect
  have c: "collectHostnames routes_reconciler routes_sync example_tunnel
       = Inr [''x.example.com'', ''app.example.com'', ''api.example.com'']"
    by simp
  with t have "distinct [''x.example.com'', ''app.example.com'', ''api.example.com'']"
    by blast
  with e x routes_collect c show ?thesis by blast
qed


section \<open>The status of a route\<close>

text \<open>
  C4, a defect of the code. The status of the route \<open>ns/web\<close> holds an entry of the
  controller \<open>example.com/mesh-controller\<close>. The reconciliation writes a status whose
  parents are the one entry it built for the parent reference \<open>gw\<close>, under the
  operator's controller name and with the conditions \<open>Accepted\<close> and \<open>ResolvedRefs\<close>:
  the entry of the other controller is gone.
\<close>

theorem Reconcile_drops_foreign_parent_status:
  "route_Status_Parents example_route = [foreign_parent_status]
   \<and> ControllerName foreign_parent_status = ''example.com/mesh-controller''
   \<and> Reconcile example_route_reconciler (''ns'', ''web'')
     = ((\<lparr>Requeue = False, RequeueAfter = 300000000000\<rparr>, None),
        Some (example_route\<lparr>route_Status_Parents :=
          [\<lparr>ParentRef = \<lparr>pr_Group = None, pr_Kind = None, pr_Namespace = Some ''ns'',
                          pr_Name = ''gw'', pr_SectionName = None\<rparr>,
            ControllerName = ''cfgate.io/cloudflare-tunnel-controller'',
            rps_Conditions =
              [\<lparr>cond_Type = ''Accepted'', cond_Status = ''True'', cond_Reason = ''Accepted'',
                cond_Message = ''Route accepted by Gateway'', cond_LastTransitionTime = 100,
                cond_ObservedGeneration = 1\<rparr>,
               \<lparr>cond_Type = ''ResolvedRefs'', cond_Status = ''True'',
                cond_Reason = ''ResolvedRefs'', cond_Message = ''All references resolved'',
                cond_LastTransitionTime = 100, cond_ObservedGeneration = 1\<rparr>]\<rparr>]\<rparr>))"
proof -
  have v: "validateParentRef example_route_reconciler example_route
      \<lparr>pr_Group = None, pr_Kind = None, pr_Namespace = None, pr_Name = ''gw'',
       pr_SectionName = None\<rparr> = Accepted"
    by (simp add: validateParentRef_def example_route_reconciler_def example_route_def
        example_gateway_def)
  have b: "resolveBackends example_route_reconciler example_route = None"
    by (simp add: resolveBackends_def example_route_def)
  have g: "GetHTTPRoute example_route_reconciler (''ns'', ''web'') = Inr example_route"
    "StatusUpdate example_route_reconciler = (\<lambda>route. None)"
    "GatewayControllerName example_route_reconciler = ''cfgate.io/cloudflare-tunnel-controller''"
    "hr_Now example_route_reconciler = 100"
    by (simp_all add: example_route_reconciler_def)
  have p: "route_Spec_ParentRefs example_route
      = [\<lparr>pr_Group = None, pr_Kind = None, pr_Namespace = None, pr_Name = ''gw'',
          pr_SectionName = None\<rparr>]"
    "route_Namespace example_route = ''ns''" "route_Generation example_route = 1"
    "route_Status_Parents example_route = [foreign_parent_status]"
    by (simp_all add: example_route_def)
  show ?thesis
    by (simp add: Reconcile_def g p b Let_def parentStatus_def v)
      (simp add: foreign_parent_status_def)
qed

end
